theory Spec2Isabelle
  imports Main
begin

section \<open>JavaScript values, strings, Map objects and promises\<close>

text \<open>
  The two loaders of the repository are \<^verbatim>\<open>AssetLoader\<close> (src/src/index.js, the third
  module of that file) and \<^verbatim>\<open>SpriteManager\<close> (graphics/SpriteManager). Both are
  single-threaded JavaScript: a method call runs to its first \<^verbatim>\<open>await\<close>, and the
  browser later delivers \<^verbatim>\<open>onload\<close>, \<^verbatim>\<open>onerror\<close> and timer callbacks one at a time.
  The embedding is explicit state passing: every method and every callback is a function
  from the object's state to its new state.

  An argument of \<^verbatim>\<open>loadSprite\<close> is any JavaScript value. Strings are lists of
  characters; \<^verbatim>\<open>toLowerCase\<close> is modelled on the ASCII letters.
\<close>

datatype jsval = JUndefined | JNull | JBool bool | JNum int | JStr string

text \<open>\<^verbatim>\<open>!url\<close> holds of the falsy values.\<close>

fun falsy :: "jsval \<Rightarrow> bool" where
  "falsy JUndefined = True"
| "falsy JNull = True"
| "falsy (JBool b) = (\<not> b)"
| "falsy (JNum n) = (n = 0)"
| "falsy (JStr s) = (s = [])"

fun is_string :: "jsval \<Rightarrow> bool" where
  "is_string (JStr s) = True"
| "is_string v = False"

fun str_of :: "jsval \<Rightarrow> string" where
  "str_of (JStr s) = s"
| "str_of v = []"

definition toLowerCase_char :: "char \<Rightarrow> char" where
  "toLowerCase_char c =
     (let n = (of_char c :: nat) in if 65 \<le> n \<and> n \<le> 90 then char_of (n + 32) else c)"

definition toLowerCase :: "string \<Rightarrow> string" where
  "toLowerCase s = map toLowerCase_char s"

text \<open>\<^verbatim>\<open>s.split(d)\<close> for a one-character separator: never the empty array.\<close>

fun js_split :: "char \<Rightarrow> string \<Rightarrow> string list" where
  "js_split d [] = [[]]"
| "js_split d (c # cs) =
     (if c = d then [] # js_split d cs
      else (case js_split d cs of
              [] \<Rightarrow> [[c]]
            | w # ws \<Rightarrow> (c # w) # ws))"

text \<open>\<^verbatim>\<open>url.split('.').pop().toLowerCase()\<close>\<close>

definition extension_of :: "string \<Rightarrow> string" where
  "extension_of url = toLowerCase (last (js_split CHR ''.'' url))"

text \<open>
  A JavaScript \<^verbatim>\<open>Map\<close> keeps its entries in insertion order; \<^verbatim>\<open>set\<close> on a key
  that is present replaces the value in place, \<^verbatim>\<open>set\<close> on a new key appends.
\<close>

fun map_set :: "('k \<times> 'v) list \<Rightarrow> 'k \<Rightarrow> 'v \<Rightarrow> ('k \<times> 'v) list" where
  "map_set [] k v = [(k, v)]"
| "map_set ((k', v') # m) k v =
     (if k' = k then (k, v) # m else (k', v') # map_set m k v)"

definition map_get :: "('k \<times> 'v) list \<Rightarrow> 'k \<Rightarrow> 'v option" where
  "map_get m k = map_of m k"

definition map_has :: "('k \<times> 'v) list \<Rightarrow> 'k \<Rightarrow> bool" where
  "map_has m k = (map_get m k \<noteq> None)"

definition map_delete :: "('k \<times> 'v) list \<Rightarrow> 'k \<Rightarrow> ('k \<times> 'v) list" where
  "map_delete m k = filter (\<lambda>p. fst p \<noteq> k) m"

definition map_keys :: "('k \<times> 'v) list \<Rightarrow> 'k list" where
  "map_keys m = map fst m"

text \<open>
  The errors the loaders throw. \<open>InvalidUrl\<close> is \<^verbatim>\<open>'Invalid asset URL'\<close> /
  \<^verbatim>\<open>'Invalid sprite URL'\<close>; \<open>UnsupportedFormat\<close> carries the extension of the message;
  \<open>LoadFailed\<close> is the \<^verbatim>\<open>onerror\<close> rejection; \<open>LoadTimeout\<close> carries the URL of the
  message (\<^verbatim>\<open>AssetLoader\<close> passes \<^verbatim>\<open>null\<close>); \<open>PreloadFailed\<close> is
  \<^verbatim>\<open>'Failed to preload sprites'\<close>.
\<close>

datatype error =
    InvalidUrl
  | UnsupportedFormat string
  | LoadFailed string
  | LoadTimeout "string option"
  | PreloadFailed "jsval list"

text \<open>The spec's \<^verbatim>\<open>InvalidKey\<close>: either of the two validation errors.\<close>

fun is_InvalidKey :: "error \<Rightarrow> bool" where
  "is_InvalidKey InvalidUrl = True"
| "is_InvalidKey (UnsupportedFormat ext) = True"
| "is_InvalidKey e = False"

text \<open>A promise is pending or settled; settling a settled promise changes nothing.\<close>

datatype 'a promise = Pending | Fulfilled 'a | Rejected error

fun settle :: "'a promise \<Rightarrow> 'a promise \<Rightarrow> 'a promise" where
  "settle Pending r = r"
| "settle p r = p"

fun is_rejected :: "'a promise \<Rightarrow> bool" where
  "is_rejected (Rejected e) = True"
| "is_rejected p = False"

fun is_fulfilled :: "'a promise \<Rightarrow> bool" where
  "is_fulfilled (Fulfilled x) = True"
| "is_fulfilled p = False"

fun fulfilled_values :: "'a promise list \<Rightarrow> 'a list" where
  "fulfilled_values [] = []"
| "fulfilled_values (Fulfilled x # ps) = x # fulfilled_values ps"
| "fulfilled_values (p # ps) = fulfilled_values ps"

text \<open>
  What an \<^verbatim>\<open>async loadSprite\<close> call hands back, up to promise adoption:
  \<^item> \<open>Thrown e\<close>: the body threw before any \<^verbatim>\<open>await\<close>, the promise is rejected with \<open>e\<close>;
  \<^item> \<open>Returned x\<close>: the body returned the cached value \<open>x\<close>;
  \<^item> \<open>Joined p\<close>: the body returned the promise registered in the loading map,
    \<^verbatim>\<open>return this.loading.get(url)\<close>; \<open>p\<close> is the number of the load that owns it;
  \<^item> \<open>Started p\<close>: the call started load number \<open>p\<close> and awaits it.
\<close>

datatype 'a future = Thrown error | Returned 'a | Joined nat | Started nat

text \<open>\<^verbatim>\<open>options.x || DEFAULT\<close> on a number: \<^verbatim>\<open>undefined\<close> and \<^verbatim>\<open>0\<close> give the default.\<close>

definition or_default :: "nat option \<Rightarrow> nat \<Rightarrow> nat" where
  "or_default v d = (case v of None \<Rightarrow> d | Some n \<Rightarrow> if n = 0 then d else n)"

section \<open>AssetLoader\<close>

record AssetLoaderOptions =
  opt_maxCacheSize :: "nat option"
  opt_timeout :: "nat option"
  opt_supportedFormats :: "string list option"

text \<open>
  One entry per \<^verbatim>\<open>new Image(); img.src = url\<close>, that is per call of the fetch primitive:
  the URL fetched, the state of \<^verbatim>\<open>loadPromise\<close> and the state of
  \<^verbatim>\<open>Promise.race([loadPromise, timeoutPromise])\<close>. The entry's index names the
  \<^verbatim>\<open>Image\<close> object it created.
\<close>

record ImageLoad =
  src :: string
  loadPromise :: "nat promise"
  racePromise :: "nat promise"

record AssetLoader =
  cache :: "(string \<times> nat) list"
  loading :: "(string \<times> nat) list"
  maxCacheSize :: nat
  timeout :: nat
  supportedFormats :: "string list"
  images :: "ImageLoad list"

definition CONFIG_SUPPORTED_FORMATS :: "string list" where
  "CONFIG_SUPPORTED_FORMATS = [''png'', ''jpg'', ''jpeg'', ''webp'', ''svg'']"

definition new_AssetLoader :: "AssetLoaderOptions \<Rightarrow> AssetLoader" where
  "new_AssetLoader options =
     \<lparr>cache = [], loading = [],
      maxCacheSize = or_default (opt_maxCacheSize options) 100,
      timeout = or_default (opt_timeout options) 30000,
      supportedFormats =
        (case opt_supportedFormats options of
           None \<Rightarrow> CONFIG_SUPPORTED_FORMATS | Some fs \<Rightarrow> fs),
      images = []\<rparr>"

definition no_options :: AssetLoaderOptions where
  "no_options = \<lparr>opt_maxCacheSize = None, opt_timeout = None, opt_supportedFormats = None\<rparr>"

text \<open>\<^verbatim>\<open>_validateAssetUrl\<close>: \<open>None\<close> when it returns, \<open>Some e\<close> when it throws \<open>e\<close>.\<close>

definition AssetLoader_validateAssetUrl :: "AssetLoader \<Rightarrow> jsval \<Rightarrow> error option" where
  "AssetLoader_validateAssetUrl al url =
     (if falsy url \<or> \<not> is_string url then Some InvalidUrl
      else let extension = extension_of (str_of url) in
        if extension \<notin> set (supportedFormats al) then Some (UnsupportedFormat extension)
        else None)"

text \<open>\<^verbatim>\<open>_manageCacheSize\<close>: one deletion, of the first key in insertion order.\<close>

definition AssetLoader_manageCacheSize :: "AssetLoader \<Rightarrow> AssetLoader" where
  "AssetLoader_manageCacheSize al =
     (if length (cache al) > maxCacheSize al then
        (case map_keys (cache al) of
           [] \<Rightarrow> al
         | firstKey # rest \<Rightarrow> al\<lparr>cache := map_delete (cache al) firstKey\<rparr>)
      else al)"

text \<open>
  \<^verbatim>\<open>loadSprite\<close> up to its \<^verbatim>\<open>await\<close>. The catch block rethrows an \<^verbatim>\<open>AssetLoadError\<close>
  as it is, and every error of the body is one. The starting call returns the race of
  \<^verbatim>\<open>loadPromise\<close> and the timeout; the loading map holds \<^verbatim>\<open>loadPromise\<close> itself.
\<close>

definition AssetLoader_loadSprite :: "AssetLoader \<Rightarrow> jsval \<Rightarrow> nat future \<times> AssetLoader" where
  "AssetLoader_loadSprite al v =
     (case AssetLoader_validateAssetUrl al v of
        Some e \<Rightarrow> (Thrown e, al)
      | None \<Rightarrow>
          (let url = str_of v in
           case map_get (cache al) url of
             Some img \<Rightarrow> (Returned img, al)
           | None \<Rightarrow>
               (case map_get (loading al) url of
                  Some p \<Rightarrow> (Joined p, al)
                | None \<Rightarrow>
                    (let i = length (images al);
                         img = \<lparr>src = url, loadPromise = Pending, racePromise = Pending\<rparr>
                     in (Started i,
                         al\<lparr>images := images al @ [img],
                            loading := map_set (loading al) url i\<rparr>)))))"

text \<open>\<^verbatim>\<open>getSprite(url) { return this.loadSprite(url); }\<close>\<close>

definition AssetLoader_getSprite :: "AssetLoader \<Rightarrow> jsval \<Rightarrow> nat future \<times> AssetLoader" where
  "AssetLoader_getSprite al url = AssetLoader_loadSprite al url"

text \<open>
  \<^verbatim>\<open>resolve(img)\<close> / \<^verbatim>\<open>reject(e)\<close> of \<^verbatim>\<open>loadPromise\<close>: the first settlement counts, and
  the race adopts it unless the timeout has already settled the race.
\<close>

definition settle_loadPromise :: "AssetLoader \<Rightarrow> nat \<Rightarrow> nat promise \<Rightarrow> AssetLoader" where
  "settle_loadPromise al i r =
     (let a = images al ! i in
      if loadPromise a = Pending
      then al\<lparr>images := (images al)[i := a\<lparr>loadPromise := r, racePromise := settle (racePromise a) r\<rparr>]\<rparr>
      else al)"

text \<open>\<^verbatim>\<open>img.onload\<close> of image \<open>i\<close>; an image that was never created has no callback.\<close>

definition img_onload :: "AssetLoader \<Rightarrow> nat \<Rightarrow> AssetLoader" where
  "img_onload al i =
     (if i < length (images al) then
        (let url = src (images al ! i);
             al1 = al\<lparr>cache := map_set (cache al) url i\<rparr>;
             al2 = al1\<lparr>loading := map_delete (loading al1) url\<rparr>;
             al3 = AssetLoader_manageCacheSize al2
         in settle_loadPromise al3 i (Fulfilled i))
      else al)"

definition img_onerror :: "AssetLoader \<Rightarrow> nat \<Rightarrow> AssetLoader" where
  "img_onerror al i =
     (if i < length (images al) then
        (let url = src (images al ! i);
             al1 = al\<lparr>loading := map_delete (loading al) url\<rparr>
         in settle_loadPromise al1 i (Rejected (LoadFailed url)))
      else al)"

text \<open>The timer of \<^verbatim>\<open>_createTimeout\<close> fires: the race is rejected if still pending.\<close>

definition createTimeout_fires :: "AssetLoader \<Rightarrow> nat \<Rightarrow> AssetLoader" where
  "createTimeout_fires al i =
     (if i < length (images al) then
        (let a = images al ! i in
         al\<lparr>images := (images al)[i := a\<lparr>racePromise := settle (racePromise a) (Rejected (LoadTimeout None))\<rparr>]\<rparr>)
      else al)"

text \<open>The state of the promise a \<^verbatim>\<open>loadSprite\<close> call returned.\<close>

fun AssetLoader_future :: "AssetLoader \<Rightarrow> nat future \<Rightarrow> nat promise" where
  "AssetLoader_future al (Thrown e) = Rejected e"
| "AssetLoader_future al (Returned img) = Fulfilled img"
| "AssetLoader_future al (Joined p) =
     (if p < length (images al) then loadPromise (images al ! p) else Pending)"
| "AssetLoader_future al (Started p) =
     (if p < length (images al) then racePromise (images al ! p) else Pending)"

text \<open>\<^verbatim>\<open>urls.map(url => this.loadSprite(url))\<close>: the calls run in order, each to its await.\<close>

fun map_loadSprite :: "AssetLoader \<Rightarrow> jsval list \<Rightarrow> nat future list \<times> AssetLoader" where
  "map_loadSprite al [] = ([], al)"
| "map_loadSprite al (url # urls) =
     (let (f, al1) = AssetLoader_loadSprite al url;
          (fs, al2) = map_loadSprite al1 urls
      in (f # fs, al2))"

text \<open>
  \<^verbatim>\<open>preloadSprites\<close>: \<^verbatim>\<open>Promise.all\<close> rejects as soon as one input is rejected and is
  fulfilled with the array of values once all are; the catch block replaces the
  rejection by \<^verbatim>\<open>AssetLoadError('Failed to preload sprites', urls)\<close>.
\<close>

definition preloadSprites_promise ::
    "AssetLoader \<Rightarrow> nat future list \<Rightarrow> jsval list \<Rightarrow> nat list promise" where
  "preloadSprites_promise al fs urls =
     (let ps = map (AssetLoader_future al) fs in
      if list_ex is_rejected ps then Rejected (PreloadFailed urls)
      else if list_all is_fulfilled ps then Fulfilled (fulfilled_values ps)
      else Pending)"

definition AssetLoader_preloadSprites ::
    "AssetLoader \<Rightarrow> jsval list \<Rightarrow> nat future list \<times> AssetLoader" where
  "AssetLoader_preloadSprites al urls = map_loadSprite al urls"

definition AssetLoader_clearCache :: "AssetLoader \<Rightarrow> AssetLoader" where
  "AssetLoader_clearCache al = al\<lparr>cache := [], loading := []\<rparr>"

definition AssetLoader_cacheSize :: "AssetLoader \<Rightarrow> nat" where
  "AssetLoader_cacheSize al = length (cache al)"

definition AssetLoader_isCached :: "AssetLoader \<Rightarrow> string \<Rightarrow> bool" where
  "AssetLoader_isCached al url = map_has (cache al) url"


section \<open>SpriteManager\<close>

text \<open>
  A sprite is \<^verbatim>\<open>{ image, id, lastUsed }\<close>; \<open>sprite_image\<close> names the \<^verbatim>\<open>Image\<close> object.
  The manager reaches a sprite only through its cache entry (a sprite enters the cache
  once, under its own URL), so the cache holds the sprite's fields and
  \<^verbatim>\<open>sprite.lastUsed = Date.now()\<close> rewrites the entry in place.
\<close>

record Sprite =
  sprite_image :: nat
  sprite_id :: string
  lastUsed :: nat

text \<open>\<^verbatim>\<open>options.cache !== false\<close> is false only for \<open>Some False\<close>.\<close>

record SpriteOptions =
  option_timeout :: "nat option"
  option_cache :: "bool option"
  option_priority :: "nat option"

text \<open>
  One entry per call of \<^verbatim>\<open>#loadSpriteInternal\<close>, that is per call of the fetch
  primitive: the URL, the options of the call that started it, the promise it returned
  and whether its timer is still set.
\<close>

record SpriteLoad =
  load_url :: string
  load_options :: SpriteOptions
  load_promise :: "Sprite promise"
  timeoutId :: bool

record SpriteManager =
  spriteCache :: "(string \<times> Sprite) list"
  loadingPromises :: "(string \<times> nat) list"
  sm_maxCacheSize :: nat
  loads :: "SpriteLoad list"
  handled :: "error list"

definition SPRITE_SUPPORTED_FORMATS :: "string list" where
  "SPRITE_SUPPORTED_FORMATS = [''png'', ''jpg'', ''jpeg'', ''webp'']"

definition new_SpriteManager :: "nat option \<Rightarrow> SpriteManager" where
  "new_SpriteManager options_maxCacheSize =
     \<lparr>spriteCache = [], loadingPromises = [],
      sm_maxCacheSize = or_default options_maxCacheSize 100,
      loads = [], handled = []\<rparr>"

definition default_options :: SpriteOptions where
  "default_options = \<lparr>option_timeout = None, option_cache = None, option_priority = None\<rparr>"

definition SpriteManager_validateUrl :: "jsval \<Rightarrow> error option" where
  "SpriteManager_validateUrl url =
     (if falsy url \<or> \<not> is_string url then Some InvalidUrl
      else let extension = extension_of (str_of url) in
        if extension \<notin> set SPRITE_SUPPORTED_FORMATS then Some (UnsupportedFormat extension)
        else None)"

text \<open>\<^verbatim>\<open>#handleError\<close>: every handler sees the error; the log stands for the handlers' effects.\<close>

definition SpriteManager_handleError :: "SpriteManager \<Rightarrow> error \<Rightarrow> SpriteManager" where
  "SpriteManager_handleError sm e = sm\<lparr>handled := handled sm @ [e]\<rparr>"

text \<open>
  The loop of \<^verbatim>\<open>#addToCache\<close> over the cache in insertion order; \<open>oldestTime = None\<close>
  is \<^verbatim>\<open>Infinity\<close>.
\<close>

fun oldest_scan :: "(string \<times> Sprite) list \<Rightarrow> string option \<Rightarrow> nat option \<Rightarrow> string option" where
  "oldest_scan [] oldestUrl oldestTime = oldestUrl"
| "oldest_scan ((key, val) # rest) oldestUrl oldestTime =
     (if (case oldestTime of None \<Rightarrow> True | Some t \<Rightarrow> lastUsed val < t)
      then oldest_scan rest (Some key) (Some (lastUsed val))
      else oldest_scan rest oldestUrl oldestTime)"

definition SpriteManager_addToCache :: "SpriteManager \<Rightarrow> string \<Rightarrow> Sprite \<Rightarrow> SpriteManager" where
  "SpriteManager_addToCache sm url sprite =
     (let sm1 =
        (if length (spriteCache sm) \<ge> sm_maxCacheSize sm then
           (case oldest_scan (spriteCache sm) None None of
              None \<Rightarrow> sm
            | Some oldestUrl \<Rightarrow>
                if oldestUrl \<noteq> [] then sm\<lparr>spriteCache := map_delete (spriteCache sm) oldestUrl\<rparr>
                else sm)
         else sm)
      in sm1\<lparr>spriteCache := map_set (spriteCache sm1) url sprite\<rparr>)"

text \<open>
  \<^verbatim>\<open>loadSprite\<close> up to \<^verbatim>\<open>await loadPromise\<close>, called at time \<open>now\<close>. A joining call
  returns the registered promise without awaiting it, so its rejection does not pass
  through the catch block.
\<close>

definition SpriteManager_loadSprite ::
    "SpriteManager \<Rightarrow> jsval \<Rightarrow> SpriteOptions \<Rightarrow> nat \<Rightarrow> Sprite future \<times> SpriteManager" where
  "SpriteManager_loadSprite sm v options now =
     (case SpriteManager_validateUrl v of
        Some e \<Rightarrow> (Thrown e, SpriteManager_handleError sm e)
      | None \<Rightarrow>
          (let url = str_of v in
           case (if option_cache options \<noteq> Some False then map_get (spriteCache sm) url else None) of
             Some sprite \<Rightarrow>
               (let sprite1 = sprite\<lparr>lastUsed := now\<rparr>
                in (Returned sprite1, sm\<lparr>spriteCache := map_set (spriteCache sm) url sprite1\<rparr>))
           | None \<Rightarrow>
               (case map_get (loadingPromises sm) url of
                  Some p \<Rightarrow> (Joined p, sm)
                | None \<Rightarrow>
                    (let i = length (loads sm);
                         l = \<lparr>load_url = url, load_options = options,
                              load_promise = Pending, timeoutId = True\<rparr>
                     in (Started i,
                         sm\<lparr>loads := loads sm @ [l],
                            loadingPromises := map_set (loadingPromises sm) url i\<rparr>)))))"

text \<open>
  The rest of the starting call, after \<^verbatim>\<open>await loadPromise\<close>: it runs as a microtask of
  the callback that settled the promise, before any other callback. On fulfilment it
  deletes the loading entry and caches unless \<^verbatim>\<open>options.cache === false\<close>; on rejection
  control goes to the catch block, which only reports the error.
\<close>

definition SpriteManager_resume :: "SpriteManager \<Rightarrow> nat \<Rightarrow> SpriteManager" where
  "SpriteManager_resume sm i =
     (let l = loads sm ! i in
      case load_promise l of
        Pending \<Rightarrow> sm
      | Fulfilled sprite \<Rightarrow>
          (let sm1 = sm\<lparr>loadingPromises := map_delete (loadingPromises sm) (load_url l)\<rparr>
           in if option_cache (load_options l) \<noteq> Some False
              then SpriteManager_addToCache sm1 (load_url l) sprite
              else sm1)
      | Rejected e \<Rightarrow> SpriteManager_handleError sm e)"

text \<open>
  \<^verbatim>\<open>resolve\<close> / \<^verbatim>\<open>reject\<close> of the promise of load \<open>i\<close>, with the timer flag the callback
  leaves: a settled promise ignores it, a pending one settles and the starting call resumes.
\<close>

definition settle_load :: "SpriteManager \<Rightarrow> nat \<Rightarrow> Sprite promise \<Rightarrow> SpriteManager" where
  "settle_load sm i r =
     (let l = (loads sm ! i)\<lparr>timeoutId := False\<rparr> in
      if load_promise l = Pending
      then SpriteManager_resume (sm\<lparr>loads := (loads sm)[i := l\<lparr>load_promise := r\<rparr>]\<rparr>) i
      else sm\<lparr>loads := (loads sm)[i := l]\<rparr>)"

text \<open>\<^verbatim>\<open>image.onload\<close> of load \<open>i\<close> at time \<open>now\<close>: \<^verbatim>\<open>clearTimeout\<close>, then \<^verbatim>\<open>resolve\<close>.\<close>

definition image_onload :: "SpriteManager \<Rightarrow> nat \<Rightarrow> nat \<Rightarrow> SpriteManager" where
  "image_onload sm i now =
     (if i < length (loads sm) then
        settle_load sm i
          (Fulfilled \<lparr>sprite_image = i, sprite_id = load_url (loads sm ! i), lastUsed = now\<rparr>)
      else sm)"

definition image_onerror :: "SpriteManager \<Rightarrow> nat \<Rightarrow> SpriteManager" where
  "image_onerror sm i =
     (if i < length (loads sm) then
        settle_load sm i (Rejected (LoadFailed (load_url (loads sm ! i))))
      else sm)"

text \<open>The \<^verbatim>\<open>setTimeout\<close> callback of load \<open>i\<close>; a cleared timer never fires.\<close>

definition setTimeout_fires :: "SpriteManager \<Rightarrow> nat \<Rightarrow> SpriteManager" where
  "setTimeout_fires sm i =
     (if i < length (loads sm) \<and> timeoutId (loads sm ! i) then
        settle_load sm i (Rejected (LoadTimeout (Some (load_url (loads sm ! i)))))
      else sm)"

fun SpriteManager_future :: "SpriteManager \<Rightarrow> Sprite future \<Rightarrow> Sprite promise" where
  "SpriteManager_future sm (Thrown e) = Rejected e"
| "SpriteManager_future sm (Returned sprite) = Fulfilled sprite"
| "SpriteManager_future sm (Joined p) =
     (if p < length (loads sm) then load_promise (loads sm ! p) else Pending)"
| "SpriteManager_future sm (Started p) =
     (if p < length (loads sm) then load_promise (loads sm ! p) else Pending)"

definition SpriteManager_removeFromCache :: "SpriteManager \<Rightarrow> string \<Rightarrow> SpriteManager" where
  "SpriteManager_removeFromCache sm url = sm\<lparr>spriteCache := map_delete (spriteCache sm) url\<rparr>"

definition SpriteManager_clearCache :: "SpriteManager \<Rightarrow> SpriteManager" where
  "SpriteManager_clearCache sm = sm\<lparr>spriteCache := [], loadingPromises := []\<rparr>"

definition SpriteManager_fetches :: "SpriteManager \<Rightarrow> string \<Rightarrow> nat" where
  "SpriteManager_fetches sm url = length (filter (\<lambda>l. load_url l = url) (loads sm))"


section \<open>Runs of callbacks\<close>

text \<open>
  What can happen to a loader between two moments: calls of its methods and callbacks of
  the loads it started, in any order.
\<close>

datatype al_event =
    AL_loadSprite jsval
  | AL_onload nat
  | AL_onerror nat
  | AL_timeout nat
  | AL_clearCache

fun al_step :: "AssetLoader \<Rightarrow> al_event \<Rightarrow> AssetLoader" where
  "al_step al (AL_loadSprite v) = snd (AssetLoader_loadSprite al v)"
| "al_step al (AL_onload i) = img_onload al i"
| "al_step al (AL_onerror i) = img_onerror al i"
| "al_step al (AL_timeout i) = createTimeout_fires al i"
| "al_step al AL_clearCache = AssetLoader_clearCache al"

fun al_run :: "AssetLoader \<Rightarrow> al_event list \<Rightarrow> AssetLoader" where
  "al_run al [] = al"
| "al_run al (ev # evs) = al_run (al_step al ev) evs"

datatype sm_event =
    SM_loadSprite jsval SpriteOptions nat
  | SM_onload nat nat
  | SM_onerror nat
  | SM_timeout nat
  | SM_removeFromCache string
  | SM_clearCache

fun sm_step :: "SpriteManager \<Rightarrow> sm_event \<Rightarrow> SpriteManager" where
  "sm_step sm (SM_loadSprite v options now) = snd (SpriteManager_loadSprite sm v options now)"
| "sm_step sm (SM_onload i now) = image_onload sm i now"
| "sm_step sm (SM_onerror i) = image_onerror sm i"
| "sm_step sm (SM_timeout i) = setTimeout_fires sm i"
| "sm_step sm (SM_removeFromCache url) = SpriteManager_removeFromCache sm url"
| "sm_step sm SM_clearCache = SpriteManager_clearCache sm"

fun sm_run :: "SpriteManager \<Rightarrow> sm_event list \<Rightarrow> SpriteManager" where
  "sm_run sm [] = sm"
| "sm_run sm (ev # evs) = sm_run (sm_step sm ev) evs"

section \<open>The specification's words\<close>

text \<open>
  The spec's input constraint speaks of the suffix after the last \<^verbatim>\<open>'.'\<close>; the code
  takes the last element of \<^verbatim>\<open>split('.')\<close>. The first definition follows the spec's
  words and is compared with the code's below (\<open>last_js_split\<close>). The second is the
  set of arguments the invalid-key claim names: the empty string, \<^verbatim>\<open>null\<close>, and a
  string whose lowercased suffix is not a supported format.
\<close>

definition suffix_after_last_dot :: "string \<Rightarrow> string" where
  "suffix_after_last_dot s = rev (takeWhile (\<lambda>c. c \<noteq> CHR ''.'') (rev s))"

fun invalid_key :: "string list \<Rightarrow> jsval \<Rightarrow> bool" where
  "invalid_key formats JNull = True"
| "invalid_key formats (JStr s) =
     (s = [] \<or> toLowerCase (suffix_after_last_dot s) \<notin> set formats)"
| "invalid_key formats v = False"

section \<open>Scenarios\<close>

text \<open>
  Concrete runs of the two loaders, from a fresh object, used below as witnesses and
  counterexamples. Each callback names the load it belongs to by its number.
\<close>

text \<open>\<^verbatim>\<open>AssetLoader\<close>: a load of \<^verbatim>\<open>'a.png'\<close> starts, its timer fires, then its image loads.\<close>

definition al_started :: AssetLoader where
  "al_started = snd (AssetLoader_loadSprite (new_AssetLoader no_options) (JStr ''a.png''))"

definition al_timed_out :: AssetLoader where
  "al_timed_out = createTimeout_fires al_started 0"

definition al_late_onload :: AssetLoader where
  "al_late_onload = img_onload al_timed_out 0"

text \<open>
  \<^verbatim>\<open>AssetLoader\<close> with \<^verbatim>\<open>maxCacheSize: 2\<close>: \<^verbatim>\<open>'a.png'\<close> and \<^verbatim>\<open>'b.png'\<close> load,
  \<^verbatim>\<open>'a.png'\<close> is requested again, \<^verbatim>\<open>'c.png'\<close> loads.
\<close>

definition al_max2 :: AssetLoader where
  "al_max2 = new_AssetLoader (no_options\<lparr>opt_maxCacheSize := Some 2\<rparr>)"

definition al_a_cached :: AssetLoader where
  "al_a_cached = img_onload (snd (AssetLoader_loadSprite al_max2 (JStr ''a.png''))) 0"

definition al_ab_cached :: AssetLoader where
  "al_ab_cached = img_onload (snd (AssetLoader_loadSprite al_a_cached (JStr ''b.png''))) 1"

definition al_a_used :: AssetLoader where
  "al_a_used = snd (AssetLoader_loadSprite al_ab_cached (JStr ''a.png''))"

definition al_c_loaded :: AssetLoader where
  "al_c_loaded = img_onload (snd (AssetLoader_loadSprite al_a_used (JStr ''c.png''))) 2"

text \<open>
  \<^verbatim>\<open>AssetLoader.preloadSprites\<close> on the three URLs of the repository's test
  \<^verbatim>\<open>'should handle partial preload failures gracefully'\<close>: the first and third image
  load, the second fails.
\<close>

definition preload_urls :: "jsval list" where
  "preload_urls =
     [JStr ''path/to/sprite1.png'', JStr ''invalid/sprite.png'', JStr ''path/to/sprite3.png'']"

definition preload_futures :: "nat future list" where
  "preload_futures = fst (AssetLoader_preloadSprites (new_AssetLoader no_options) preload_urls)"

definition al_preloading :: AssetLoader where
  "al_preloading = snd (AssetLoader_preloadSprites (new_AssetLoader no_options) preload_urls)"

definition al_preload_settled :: AssetLoader where
  "al_preload_settled = img_onload (img_onerror (img_onload al_preloading 0) 1) 2"

text \<open>
  \<^verbatim>\<open>SpriteManager\<close>: a load of \<^verbatim>\<open>'a.png'\<close> starts at time 0; then either its image
  fails, or its timer fires, or its image loads at time 10.
\<close>

definition sm_started :: SpriteManager where
  "sm_started =
     snd (SpriteManager_loadSprite (new_SpriteManager None) (JStr ''a.png'') default_options 0)"

definition sm_failed :: SpriteManager where
  "sm_failed = image_onerror sm_started 0"

definition sm_timed_out :: SpriteManager where
  "sm_timed_out = setTimeout_fires sm_started 0"

definition sm_cached :: SpriteManager where
  "sm_cached = image_onload sm_started 0 10"

definition bypass_options :: SpriteOptions where
  "bypass_options = default_options\<lparr>option_cache := Some False\<rparr>"

section \<open>Facts about strings and maps\<close>

lemma js_split_no_sep: "d \<notin> set s \<Longrightarrow> js_split d s = [s]"
  by (induction s) auto

lemma js_split_nonempty: "js_split d s \<noteq> []"
  by (induction s) (auto split: list.splits)

lemma js_split_sep: "d \<in> set s \<Longrightarrow> \<exists>w1 w2 ws. js_split d s = w1 # w2 # ws"
proof (induction s)
  case Nil
  then show ?case by simp
next
  case (Cons c cs)
  show ?case
  proof (cases "c = d")
    case True
    then show ?thesis
      using js_split_nonempty [of d cs] by (cases "js_split d cs") auto
  next
    case False
    with Cons.prems have "d \<in> set cs" by simp
    from Cons.IH [OF this] False show ?thesis by auto
  qed
qed

lemma last_js_split_Cons:
  "last (js_split d (c # cs)) =
     (if d \<in> set cs then last (js_split d cs) else if c = d then cs else c # cs)"
proof (cases "d \<in> set cs")
  case True
  from js_split_sep [OF this] show ?thesis using True by auto
next
  case False
  then show ?thesis by (simp add: js_split_no_sep)
qed

text \<open>\<^verbatim>\<open>split(d).pop()\<close> is the suffix after the last separator.\<close>

lemma last_js_split: "last (js_split d s) = rev (takeWhile (\<lambda>c. c \<noteq> d) (rev s))"
proof (induction s)
  case Nil
  show ?case by simp
next
  case (Cons c cs)
  show ?case
  proof (cases "d \<in> set cs")
    case True
    then have "takeWhile (\<lambda>c. c \<noteq> d) (rev cs @ [c]) = takeWhile (\<lambda>c. c \<noteq> d) (rev cs)"
      by (simp add: takeWhile_append1)
    with True Cons show ?thesis by (simp only: last_js_split_Cons rev.simps if_True)
  next
    case False
    then have "takeWhile (\<lambda>c. c \<noteq> d) (rev cs @ [c]) = rev cs @ takeWhile (\<lambda>c. c \<noteq> d) [c]"
      by (intro takeWhile_append2) auto
    then have "rev (takeWhile (\<lambda>c. c \<noteq> d) (rev (c # cs))) = (if c = d then cs else c # cs)"
      by simp
    moreover have "last (js_split d (c # cs)) = (if c = d then cs else c # cs)"
      using False by (simp only: last_js_split_Cons if_False)
    ultimately show ?thesis by simp
  qed
qed

lemma extension_of_suffix: "extension_of s = toLowerCase (suffix_after_last_dot s)"
  by (simp add: extension_of_def suffix_after_last_dot_def last_js_split)

lemma extension_of_dot_free: "CHR ''.'' \<notin> set s \<Longrightarrow> extension_of s = toLowerCase s"
  by (simp add: extension_of_def js_split_no_sep)

lemma map_get_map_set:
  "map_get (map_set m k v) k' = (if k' = k then Some v else map_get m k')"
  by (induction m) (auto simp: map_get_def)

lemma map_get_map_delete:
  "map_get (map_delete m k) k' = (if k' = k then None else map_get m k')"
  by (induction m) (auto simp: map_get_def map_delete_def)

lemma map_keys_map_set_present:
  "map_get m k = Some x \<Longrightarrow> map_keys (map_set m k v) = map_keys m"
  by (induction m) (auto simp: map_get_def map_keys_def)


lemma AssetLoader_loadSprite_start:
  assumes "AssetLoader_validateAssetUrl al (JStr k) = None"
      and "map_get (cache al) k = None" and "map_get (loading al) k = None"
  shows "AssetLoader_loadSprite al (JStr k) =
           (Started (length (images al)),
            al\<lparr>images := images al @ [\<lparr>src = k, loadPromise = Pending, racePromise = Pending\<rparr>],
               loading := map_set (loading al) k (length (images al))\<rparr>)"
  using assms by (simp add: AssetLoader_loadSprite_def Let_def)

lemma AssetLoader_loadSprite_join:
  assumes "AssetLoader_validateAssetUrl al (JStr k) = None"
      and "map_get (cache al) k = None" and "map_get (loading al) k = Some p"
  shows "AssetLoader_loadSprite al (JStr k) = (Joined p, al)"
  using assms by (simp add: AssetLoader_loadSprite_def Let_def)

lemma AssetLoader_loadSprite_hit:
  assumes "AssetLoader_validateAssetUrl al (JStr k) = None"
      and "map_get (cache al) k = Some img"
  shows "AssetLoader_loadSprite al (JStr k) = (Returned img, al)"
  using assms by (simp add: AssetLoader_loadSprite_def Let_def)



lemma SpriteManager_loadSprite_start:
  assumes "SpriteManager_validateUrl (JStr k) = None"
      and "option_cache options = Some False \<or> map_get (spriteCache sm) k = None"
      and "map_get (loadingPromises sm) k = None"
  shows "SpriteManager_loadSprite sm (JStr k) options now =
           (Started (length (loads sm)),
            sm\<lparr>loads := loads sm @ [\<lparr>load_url = k, load_options = options,
                                      load_promise = Pending, timeoutId = True\<rparr>],
               loadingPromises := map_set (loadingPromises sm) k (length (loads sm))\<rparr>)"
  using assms by (auto simp: SpriteManager_loadSprite_def Let_def)

lemma SpriteManager_loadSprite_join:
  assumes "SpriteManager_validateUrl (JStr k) = None"
      and "option_cache options = Some False \<or> map_get (spriteCache sm) k = None"
      and "map_get (loadingPromises sm) k = Some p"
  shows "SpriteManager_loadSprite sm (JStr k) options now = (Joined p, sm)"
  using assms by (auto simp: SpriteManager_loadSprite_def Let_def)

lemma SpriteManager_loadSprite_hit:
  assumes "SpriteManager_validateUrl (JStr k) = None"
      and "option_cache options \<noteq> Some False" and "map_get (spriteCache sm) k = Some sprite"
  shows "SpriteManager_loadSprite sm (JStr k) options now =
           (Returned (sprite\<lparr>lastUsed := now\<rparr>),
            sm\<lparr>spriteCache := map_set (spriteCache sm) k (sprite\<lparr>lastUsed := now\<rparr>)\<rparr>)"
  using assms by (simp add: SpriteManager_loadSprite_def Let_def)


lemma SpriteManager_fetches_append:
  "SpriteManager_fetches (sm\<lparr>loads := loads sm @ [a], loadingPromises := l\<rparr>) k =
     SpriteManager_fetches sm k + (if load_url a = k then 1 else 0)"
  by (simp add: SpriteManager_fetches_def)

text \<open>Concrete strings, evaluated once.\<close>

lemma ext_unsupported: "extension_of ''x.unsupportedext'' = ''unsupportedext''"
  by code_simp

lemma lower_png: "toLowerCase ''png'' = ''png''" by code_simp
lemma lower_PNG: "toLowerCase ''PNG'' = ''png''" by code_simp
lemma lower_sprite: "toLowerCase ''sprite'' = ''sprite''" by code_simp

section \<open>The scenarios, evaluated\<close>

lemma ext_a_png: "extension_of ''a.png'' = ''png''" by code_simp
lemma ext_b_png: "extension_of ''b.png'' = ''png''" by code_simp
lemma ext_c_png: "extension_of ''c.png'' = ''png''" by code_simp
lemma ext_sprite1: "extension_of ''path/to/sprite1.png'' = ''png''" by code_simp
lemma ext_invalid: "extension_of ''invalid/sprite.png'' = ''png''" by code_simp
lemma ext_sprite3: "extension_of ''path/to/sprite3.png'' = ''png''" by code_simp

lemmas AssetLoader_eval =
  AssetLoader_loadSprite_def AssetLoader_validateAssetUrl_def AssetLoader_manageCacheSize_def
  img_onload_def img_onerror_def createTimeout_fires_def settle_loadPromise_def
  map_get_def map_delete_def map_keys_def Let_def
  ext_a_png ext_b_png ext_c_png ext_sprite1 ext_invalid ext_sprite3

lemmas SpriteManager_eval =
  SpriteManager_loadSprite_def SpriteManager_validateUrl_def SpriteManager_handleError_def
  SpriteManager_addToCache_def SpriteManager_resume_def settle_load_def
  image_onload_def image_onerror_def setTimeout_fires_def SPRITE_SUPPORTED_FORMATS_def
  map_get_def map_delete_def Let_def ext_a_png

lemma new_AssetLoader_no_options:
  "new_AssetLoader no_options =
     \<lparr>cache = [], loading = [], maxCacheSize = 100, timeout = 30000,
      supportedFormats = [''png'', ''jpg'', ''jpeg'', ''webp'', ''svg''], images = []\<rparr>"
  by (simp add: new_AssetLoader_def no_options_def or_default_def CONFIG_SUPPORTED_FORMATS_def)

lemma al_started_eq:
  "al_started =
     \<lparr>cache = [], loading = [(''a.png'', 0)], maxCacheSize = 100, timeout = 30000,
      supportedFormats = [''png'', ''jpg'', ''jpeg'', ''webp'', ''svg''],
      images = [\<lparr>src = ''a.png'', loadPromise = Pending, racePromise = Pending\<rparr>]\<rparr>"
  by (simp add: al_started_def new_AssetLoader_no_options AssetLoader_eval)

lemma al_timed_out_eq:
  "al_timed_out =
     \<lparr>cache = [], loading = [(''a.png'', 0)], maxCacheSize = 100, timeout = 30000,
      supportedFormats = [''png'', ''jpg'', ''jpeg'', ''webp'', ''svg''],
      images = [\<lparr>src = ''a.png'', loadPromise = Pending,
                 racePromise = Rejected (LoadTimeout None)\<rparr>]\<rparr>"
  by (simp add: al_timed_out_def al_started_eq AssetLoader_eval)

lemma al_late_onload_eq:
  "al_late_onload =
     \<lparr>cache = [(''a.png'', 0)], loading = [], maxCacheSize = 100, timeout = 30000,
      supportedFormats = [''png'', ''jpg'', ''jpeg'', ''webp'', ''svg''],
      images = [\<lparr>src = ''a.png'', loadPromise = Fulfilled 0,
                 racePromise = Rejected (LoadTimeout None)\<rparr>]\<rparr>"
  by (simp add: al_late_onload_def al_timed_out_eq AssetLoader_eval)

lemma al_max2_eq:
  "al_max2 =
     \<lparr>cache = [], loading = [], maxCacheSize = 2, timeout = 30000,
      supportedFormats = [''png'', ''jpg'', ''jpeg'', ''webp'', ''svg''], images = []\<rparr>"
  by (simp add: al_max2_def new_AssetLoader_def no_options_def or_default_def
        CONFIG_SUPPORTED_FORMATS_def)

lemma al_a_cached_eq:
  "al_a_cached =
     \<lparr>cache = [(''a.png'', 0)], loading = [], maxCacheSize = 2, timeout = 30000,
      supportedFormats = [''png'', ''jpg'', ''jpeg'', ''webp'', ''svg''],
      images = [\<lparr>src = ''a.png'', loadPromise = Fulfilled 0, racePromise = Fulfilled 0\<rparr>]\<rparr>"
  by (simp add: al_a_cached_def al_max2_eq AssetLoader_eval)

lemma al_ab_cached_eq:
  "al_ab_cached =
     \<lparr>cache = [(''a.png'', 0), (''b.png'', 1)], loading = [], maxCacheSize = 2, timeout = 30000,
      supportedFormats = [''png'', ''jpg'', ''jpeg'', ''webp'', ''svg''],
      images = [\<lparr>src = ''a.png'', loadPromise = Fulfilled 0, racePromise = Fulfilled 0\<rparr>,
                \<lparr>src = ''b.png'', loadPromise = Fulfilled 1, racePromise = Fulfilled 1\<rparr>]\<rparr>"
  by (simp add: al_ab_cached_def al_a_cached_eq AssetLoader_eval)

lemma al_a_used_hit:
  "AssetLoader_loadSprite al_ab_cached (JStr ''a.png'') = (Returned 0, al_ab_cached)"
  by (simp add: al_ab_cached_eq AssetLoader_eval)

lemma al_c_loaded_eq:
  "al_c_loaded =
     \<lparr>cache = [(''b.png'', 1), (''c.png'', 2)], loading = [], maxCacheSize = 2, timeout = 30000,
      supportedFormats = [''png'', ''jpg'', ''jpeg'', ''webp'', ''svg''],
      images = [\<lparr>src = ''a.png'', loadPromise = Fulfilled 0, racePromise = Fulfilled 0\<rparr>,
                \<lparr>src = ''b.png'', loadPromise = Fulfilled 1, racePromise = Fulfilled 1\<rparr>,
                \<lparr>src = ''c.png'', loadPromise = Fulfilled 2, racePromise = Fulfilled 2\<rparr>]\<rparr>"
  by (simp add: al_c_loaded_def al_a_used_def al_a_used_hit) (simp add: al_ab_cached_eq AssetLoader_eval)

lemma preload_started:
  "AssetLoader_preloadSprites (new_AssetLoader no_options) preload_urls =
     ([Started 0, Started 1, Started 2],
      \<lparr>cache = [],
       loading = [(''path/to/sprite1.png'', 0), (''invalid/sprite.png'', 1),
                  (''path/to/sprite3.png'', 2)],
       maxCacheSize = 100, timeout = 30000,
       supportedFormats = [''png'', ''jpg'', ''jpeg'', ''webp'', ''svg''],
       images = [\<lparr>src = ''path/to/sprite1.png'', loadPromise = Pending, racePromise = Pending\<rparr>,
                 \<lparr>src = ''invalid/sprite.png'', loadPromise = Pending, racePromise = Pending\<rparr>,
                 \<lparr>src = ''path/to/sprite3.png'', loadPromise = Pending, racePromise = Pending\<rparr>]\<rparr>)"
  by (simp add: AssetLoader_preloadSprites_def preload_urls_def new_AssetLoader_no_options
        AssetLoader_eval)

lemma al_preload_settled_eq:
  "al_preload_settled =
     \<lparr>cache = [(''path/to/sprite1.png'', 0), (''path/to/sprite3.png'', 2)],
       loading = [],
       maxCacheSize = 100, timeout = 30000,
       supportedFormats = [''png'', ''jpg'', ''jpeg'', ''webp'', ''svg''],
       images = [\<lparr>src = ''path/to/sprite1.png'', loadPromise = Fulfilled 0, racePromise = Fulfilled 0\<rparr>,
                 \<lparr>src = ''invalid/sprite.png'',
                  loadPromise = Rejected (LoadFailed ''invalid/sprite.png''),
                  racePromise = Rejected (LoadFailed ''invalid/sprite.png'')\<rparr>,
                 \<lparr>src = ''path/to/sprite3.png'', loadPromise = Fulfilled 2, racePromise = Fulfilled 2\<rparr>]\<rparr>"
  by (simp add: al_preload_settled_def al_preloading_def preload_started AssetLoader_eval)

lemma sm_started_eq:
  "sm_started =
     \<lparr>spriteCache = [], loadingPromises = [(''a.png'', 0)], sm_maxCacheSize = 100,
      loads = [\<lparr>load_url = ''a.png'', load_options = default_options,
                load_promise = Pending, timeoutId = True\<rparr>],
      handled = []\<rparr>"
  by (simp add: sm_started_def new_SpriteManager_def or_default_def default_options_def
        SpriteManager_eval)

lemma sm_failed_eq:
  "sm_failed =
     \<lparr>spriteCache = [], loadingPromises = [(''a.png'', 0)], sm_maxCacheSize = 100,
      loads = [\<lparr>load_url = ''a.png'', load_options = default_options,
                load_promise = Rejected (LoadFailed ''a.png''), timeoutId = False\<rparr>],
      handled = [LoadFailed ''a.png'']\<rparr>"
  by (simp add: sm_failed_def sm_started_eq SpriteManager_eval)

lemma sm_timed_out_eq:
  "sm_timed_out =
     \<lparr>spriteCache = [], loadingPromises = [(''a.png'', 0)], sm_maxCacheSize = 100,
      loads = [\<lparr>load_url = ''a.png'', load_options = default_options,
                load_promise = Rejected (LoadTimeout (Some ''a.png'')), timeoutId = False\<rparr>],
      handled = [LoadTimeout (Some ''a.png'')]\<rparr>"
  by (simp add: sm_timed_out_def sm_started_eq SpriteManager_eval)

lemma sm_cached_eq:
  "sm_cached =
     \<lparr>spriteCache = [(''a.png'', \<lparr>sprite_image = 0, sprite_id = ''a.png'', lastUsed = 10\<rparr>)],
      loadingPromises = [], sm_maxCacheSize = 100,
      loads = [\<lparr>load_url = ''a.png'', load_options = default_options,
                load_promise = Fulfilled \<lparr>sprite_image = 0, sprite_id = ''a.png'', lastUsed = 10\<rparr>,
                timeoutId = False\<rparr>],
      handled = []\<rparr>"
  by (simp add: sm_cached_def sm_started_eq SpriteManager_eval default_options_def)

lemma valid_a_png:
  "AssetLoader_validateAssetUrl (new_AssetLoader no_options) (JStr ''a.png'') = None"
  by (simp add: new_AssetLoader_no_options AssetLoader_validateAssetUrl_def ext_a_png)

lemma sm_valid_a_png: "SpriteManager_validateUrl (JStr ''a.png'') = None"
  by (simp add: SpriteManager_validateUrl_def ext_a_png SPRITE_SUPPORTED_FORMATS_def)

section \<open>Settled promises stay settled\<close>

lemma images_loadSprite:
  "i < length (images al) \<Longrightarrow>
     i < length (images (snd (AssetLoader_loadSprite al v)))
     \<and> images (snd (AssetLoader_loadSprite al v)) ! i = images al ! i"
  by (simp add: AssetLoader_loadSprite_def Let_def nth_append split: option.splits)

lemma images_manageCacheSize: "images (AssetLoader_manageCacheSize al) = images al"
  by (simp add: AssetLoader_manageCacheSize_def split: list.splits)

lemma race_settle_loadPromise:
  "i < length (images al) \<Longrightarrow> racePromise (images al ! i) = Rejected e \<Longrightarrow>
     i < length (images (settle_loadPromise al j r))
     \<and> racePromise (images (settle_loadPromise al j r) ! i) = Rejected e"
  by (cases "i = j") (simp_all add: settle_loadPromise_def Let_def)

lemma race_rejected_step:
  assumes "i < length (images al)" and "racePromise (images al ! i) = Rejected e"
  shows "i < length (images (al_step al ev))
         \<and> racePromise (images (al_step al ev) ! i) = Rejected e"
proof (cases ev)
  case (AL_loadSprite v)
  then show ?thesis using assms images_loadSprite [OF assms(1), of v] by simp
next
  case (AL_onload j)
  then show ?thesis using assms
    by (simp add: img_onload_def Let_def race_settle_loadPromise images_manageCacheSize)
next
  case (AL_onerror j)
  then show ?thesis using assms
    by (simp add: img_onerror_def Let_def race_settle_loadPromise)
next
  case (AL_timeout j)
  then show ?thesis using assms
    by (cases "i = j") (simp_all add: createTimeout_fires_def Let_def)
next
  case AL_clearCache
  then show ?thesis using assms by (simp add: AssetLoader_clearCache_def)
qed

lemma race_rejected_run:
  "i < length (images al) \<Longrightarrow> racePromise (images al ! i) = Rejected e \<Longrightarrow>
     i < length (images (al_run al evs))
     \<and> racePromise (images (al_run al evs) ! i) = Rejected e"
proof (induction evs arbitrary: al)
  case Nil
  then show ?case by simp
next
  case (Cons ev evs)
  from race_rejected_step [OF Cons.prems, of ev] Cons.IH [of "al_step al ev"]
  show ?case by simp
qed

lemma createTimeout_fires_pending:
  "i < length (images al) \<Longrightarrow> racePromise (images al ! i) = Pending \<Longrightarrow>
     i < length (images (createTimeout_fires al i))
     \<and> racePromise (images (createTimeout_fires al i) ! i) = Rejected (LoadTimeout None)"
  by (simp add: createTimeout_fires_def Let_def)

lemma loads_loadSprite:
  "i < length (loads sm) \<Longrightarrow>
     i < length (loads (snd (SpriteManager_loadSprite sm v options now)))
     \<and> loads (snd (SpriteManager_loadSprite sm v options now)) ! i = loads sm ! i"
  by (simp add: SpriteManager_loadSprite_def SpriteManager_handleError_def Let_def nth_append
        split: option.splits)

lemma loads_addToCache: "loads (SpriteManager_addToCache sm url sprite) = loads sm"
  by (simp add: SpriteManager_addToCache_def Let_def split: option.splits)

lemma loads_resume: "loads (SpriteManager_resume sm j) = loads sm"
  by (simp add: SpriteManager_resume_def SpriteManager_handleError_def loads_addToCache Let_def
        split: promise.splits)

lemma promise_settle_load:
  "i < length (loads sm) \<Longrightarrow> load_promise (loads sm ! i) = Rejected e \<Longrightarrow>
     i < length (loads (settle_load sm j r))
     \<and> load_promise (loads (settle_load sm j r) ! i) = Rejected e"
  by (cases "i = j") (simp_all add: settle_load_def Let_def loads_resume)

lemma promise_rejected_step:
  assumes "i < length (loads sm)" and "load_promise (loads sm ! i) = Rejected e"
  shows "i < length (loads (sm_step sm ev))
         \<and> load_promise (loads (sm_step sm ev) ! i) = Rejected e"
proof (cases ev)
  case (SM_loadSprite v options now)
  then show ?thesis using assms loads_loadSprite [OF assms(1), of v options now] by simp
next
  case (SM_onload j now)
  then show ?thesis using assms by (simp add: image_onload_def promise_settle_load)
next
  case (SM_onerror j)
  then show ?thesis using assms by (simp add: image_onerror_def promise_settle_load)
next
  case (SM_timeout j)
  then show ?thesis using assms by (simp add: setTimeout_fires_def promise_settle_load)
next
  case (SM_removeFromCache url)
  then show ?thesis using assms by (simp add: SpriteManager_removeFromCache_def)
next
  case SM_clearCache
  then show ?thesis using assms by (simp add: SpriteManager_clearCache_def)
qed

lemma promise_rejected_run:
  "i < length (loads sm) \<Longrightarrow> load_promise (loads sm ! i) = Rejected e \<Longrightarrow>
     i < length (loads (sm_run sm evs))
     \<and> load_promise (loads (sm_run sm evs) ! i) = Rejected e"
proof (induction evs arbitrary: sm)
  case Nil
  then show ?case by simp
next
  case (Cons ev evs)
  from promise_rejected_step [OF Cons.prems, of ev] Cons.IH [of "sm_step sm ev"]
  show ?case by simp
qed

lemma setTimeout_fires_pending:
  "i < length (loads sm) \<Longrightarrow> load_promise (loads sm ! i) = Pending \<Longrightarrow> timeoutId (loads sm ! i) \<Longrightarrow>
     i < length (loads (setTimeout_fires sm i))
     \<and> load_promise (loads (setTimeout_fires sm i) ! i)
         = Rejected (LoadTimeout (Some (load_url (loads sm ! i))))
     \<and> spriteCache (setTimeout_fires sm i) = spriteCache sm
     \<and> loadingPromises (setTimeout_fires sm i) = loadingPromises sm"
  by (simp add: setTimeout_fires_def settle_load_def SpriteManager_resume_def
        SpriteManager_handleError_def Let_def)

lemma image_onload_settled:
  "i < length (loads sm) \<Longrightarrow> load_promise (loads sm ! i) = Rejected e \<Longrightarrow>
     spriteCache (image_onload sm i now) = spriteCache sm
     \<and> loadingPromises (image_onload sm i now) = loadingPromises sm"
  by (simp add: image_onload_def settle_load_def Let_def)

lemma image_onload_bypass:
  assumes "i < length (loads s)" and "option_cache (load_options (loads s ! i)) = Some False"
  shows "spriteCache (image_onload s i t) = spriteCache s"
  using assms
  by (simp add: image_onload_def settle_load_def SpriteManager_resume_def Let_def)

lemma image_onload_started:
  assumes "i < length (loads s)" and "load_promise (loads s ! i) = Pending"
  shows "load_promise (loads (image_onload s i t) ! i) =
           Fulfilled \<lparr>sprite_image = i, sprite_id = load_url (loads s ! i), lastUsed = t\<rparr>
         \<and> length (loads (image_onload s i t)) = length (loads s)
         \<and> map_get (loadingPromises (image_onload s i t)) (load_url (loads s ! i)) = None"
  using assms
  by (simp add: image_onload_def settle_load_def SpriteManager_resume_def Let_def
        SpriteManager_addToCache_def map_get_map_delete split: option.splits)

section \<open>The size bound and the choice of the evicted entry\<close>

lemma length_map_set_le: "length (map_set m k v) \<le> Suc (length m)"
  by (induction m) auto

lemma length_map_delete_le: "length (map_delete m k) \<le> length m"
  by (simp add: map_delete_def)

lemma length_map_delete_less:
  "k \<in> fst ` set m \<Longrightarrow> length (map_delete m k) < length m"
proof -
  assume "k \<in> fst ` set m"
  then obtain p where p: "p \<in> set m" "fst p = k" by auto
  then have "\<not> (fst p \<noteq> k)" by simp
  from length_filter_less [of p m "\<lambda>p. fst p \<noteq> k", OF p(1) this]
  show ?thesis by (simp add: map_delete_def)
qed

lemma manageCacheSize_size_bound:
  "length (cache al) \<le> Suc (maxCacheSize al) \<Longrightarrow>
     length (cache (AssetLoader_manageCacheSize al)) \<le> maxCacheSize al"
proof (cases "cache al")
  case Nil
  then show ?thesis by (simp add: AssetLoader_manageCacheSize_def map_keys_def)
next
  case (Cons p ps)
  assume b: "length (cache al) \<le> Suc (maxCacheSize al)"
  have "fst p \<in> fst ` set (cache al)" using Cons by simp
  from length_map_delete_less [OF this] b
  show ?thesis using Cons
    by (simp add: AssetLoader_manageCacheSize_def map_keys_def)
qed

text \<open>
  The size bound of \<^verbatim>\<open>AssetLoader\<close>: an \<^verbatim>\<open>onload\<close> keeps the cache within
  \<^verbatim>\<open>maxCacheSize\<close>.
\<close>

lemma cache_settle_loadPromise: "cache (settle_loadPromise al i r) = cache al"
  by (simp add: settle_loadPromise_def Let_def)

lemma maxCacheSize_manageCacheSize:
  "maxCacheSize (AssetLoader_manageCacheSize al) = maxCacheSize al"
  by (simp add: AssetLoader_manageCacheSize_def split: list.splits)

lemma img_onload_size_bound:
  assumes "length (cache al) \<le> maxCacheSize al"
  shows "length (cache (img_onload al i)) \<le> maxCacheSize al"
proof (cases "i < length (images al)")
  case False
  then show ?thesis using assms by (simp add: img_onload_def)
next
  case True
  let ?al2 = "al\<lparr>cache := map_set (cache al) (src (images al ! i)) i,
                 loading := map_delete (loading al) (src (images al ! i))\<rparr>"
  have "length (cache ?al2) \<le> Suc (maxCacheSize ?al2)"
    using assms length_map_set_le [of "cache al" "src (images al ! i)" i] by simp
  from manageCacheSize_size_bound [OF this]
  show ?thesis using True
    by (simp add: img_onload_def Let_def cache_settle_loadPromise)
qed

text \<open>
  The loop of \<^verbatim>\<open>SpriteManager.#addToCache\<close> finds an entry whose \<^verbatim>\<open>lastUsed\<close> is least.
\<close>

lemma oldest_scan_acc:
  "oldest_scan m ou (Some t0) = r \<Longrightarrow>
     (r = ou \<and> (\<forall>p\<in>set m. t0 \<le> lastUsed (snd p)))
     \<or> (\<exists>k sp. r = Some k \<and> (k, sp) \<in> set m \<and> lastUsed sp < t0
           \<and> (\<forall>p\<in>set m. lastUsed sp \<le> lastUsed (snd p)))"
proof (induction m arbitrary: ou t0)
  case Nil
  then show ?case by simp
next
  case (Cons a m)
  obtain k1 v1 where a: "a = (k1, v1)" by (cases a)
  show ?case
  proof (cases "lastUsed v1 < t0")
    case True
    with Cons.prems a have "oldest_scan m (Some k1) (Some (lastUsed v1)) = r" by simp
    from Cons.IH [OF this] show ?thesis
    proof
      assume "r = Some k1 \<and> (\<forall>p\<in>set m. lastUsed v1 \<le> lastUsed (snd p))"
      then have "r = Some k1 \<and> (k1, v1) \<in> set (a # m) \<and> lastUsed v1 < t0
           \<and> (\<forall>p\<in>set (a # m). lastUsed v1 \<le> lastUsed (snd p))"
        using True a by simp
      then show ?thesis by blast
    next
      assume "\<exists>k sp. r = Some k \<and> (k, sp) \<in> set m \<and> lastUsed sp < lastUsed v1
           \<and> (\<forall>p\<in>set m. lastUsed sp \<le> lastUsed (snd p))"
      then obtain k sp where "r = Some k" "(k, sp) \<in> set m" "lastUsed sp < lastUsed v1"
        "\<forall>p\<in>set m. lastUsed sp \<le> lastUsed (snd p)" by blast
      then have "r = Some k \<and> (k, sp) \<in> set (a # m) \<and> lastUsed sp < t0
           \<and> (\<forall>p\<in>set (a # m). lastUsed sp \<le> lastUsed (snd p))"
        using True a by simp
      then show ?thesis by blast
    qed
  next
    case False
    with Cons.prems a have "oldest_scan m ou (Some t0) = r" by simp
    from Cons.IH [OF this] show ?thesis
    proof
      assume "r = ou \<and> (\<forall>p\<in>set m. t0 \<le> lastUsed (snd p))"
      then have "r = ou \<and> (\<forall>p\<in>set (a # m). t0 \<le> lastUsed (snd p))"
        using False a by simp
      then show ?thesis by blast
    next
      assume "\<exists>k sp. r = Some k \<and> (k, sp) \<in> set m \<and> lastUsed sp < t0
           \<and> (\<forall>p\<in>set m. lastUsed sp \<le> lastUsed (snd p))"
      then obtain k sp where "r = Some k" "(k, sp) \<in> set m" "lastUsed sp < t0"
        "\<forall>p\<in>set m. lastUsed sp \<le> lastUsed (snd p)" by blast
      then have "r = Some k \<and> (k, sp) \<in> set (a # m) \<and> lastUsed sp < t0
           \<and> (\<forall>p\<in>set (a # m). lastUsed sp \<le> lastUsed (snd p))"
        using False a by simp
      then show ?thesis by blast
    qed
  qed
qed

lemma oldest_scan_least:
  assumes "m \<noteq> []"
  shows "\<exists>k sp. oldest_scan m None None = Some k \<and> (k, sp) \<in> set m
           \<and> (\<forall>p\<in>set m. lastUsed sp \<le> lastUsed (snd p))"
proof -
  from assms obtain k1 v1 rest where m: "m = (k1, v1) # rest" by (cases m) auto
  have e: "oldest_scan m None None = oldest_scan rest (Some k1) (Some (lastUsed v1))"
    by (simp add: m)
  from oldest_scan_acc [OF refl, of rest "Some k1" "lastUsed v1"] show ?thesis
  proof
    assume "oldest_scan rest (Some k1) (Some (lastUsed v1)) = Some k1
        \<and> (\<forall>p\<in>set rest. lastUsed v1 \<le> lastUsed (snd p))"
    then have "oldest_scan m None None = Some k1 \<and> (k1, v1) \<in> set m
           \<and> (\<forall>p\<in>set m. lastUsed v1 \<le> lastUsed (snd p))"
      using e by (simp add: m)
    then show ?thesis by blast
  next
    assume "\<exists>k sp. oldest_scan rest (Some k1) (Some (lastUsed v1)) = Some k
        \<and> (k, sp) \<in> set rest \<and> lastUsed sp < lastUsed v1
        \<and> (\<forall>p\<in>set rest. lastUsed sp \<le> lastUsed (snd p))"
    then obtain k sp where "oldest_scan rest (Some k1) (Some (lastUsed v1)) = Some k"
      "(k, sp) \<in> set rest" "lastUsed sp < lastUsed v1"
      "\<forall>p\<in>set rest. lastUsed sp \<le> lastUsed (snd p)" by blast
    then have "oldest_scan m None None = Some k \<and> (k, sp) \<in> set m
           \<and> (\<forall>p\<in>set m. lastUsed sp \<le> lastUsed (snd p))"
      using e by (simp add: m)
    then show ?thesis by blast
  qed
qed

lemma addToCache_evicts_least:
  assumes "sm_maxCacheSize sm \<le> length (spriteCache sm)" and "spriteCache sm \<noteq> []"
      and "[] \<notin> set (map_keys (spriteCache sm))"
  shows "\<exists>k sp. (k, sp) \<in> set (spriteCache sm)
           \<and> (\<forall>p\<in>set (spriteCache sm). lastUsed sp \<le> lastUsed (snd p))
           \<and> spriteCache (SpriteManager_addToCache sm url sprite)
               = map_set (map_delete (spriteCache sm) k) url sprite"
proof -
  from oldest_scan_least [OF assms(2)] obtain k sp where
    o: "oldest_scan (spriteCache sm) None None = Some k" and
    i: "(k, sp) \<in> set (spriteCache sm)" and
    l: "\<forall>p\<in>set (spriteCache sm). lastUsed sp \<le> lastUsed (snd p)" by blast
  from i assms(3) have "k \<noteq> []" by (force simp: map_keys_def)
  then have "spriteCache (SpriteManager_addToCache sm url sprite)
               = map_set (map_delete (spriteCache sm) k) url sprite"
    using assms(1) o by (simp add: SpriteManager_addToCache_def Let_def)
  with i l show ?thesis by blast
qed

lemma addToCache_size_bound:
  assumes "length (spriteCache sm) \<le> sm_maxCacheSize sm" and "0 < sm_maxCacheSize sm"
      and "[] \<notin> set (map_keys (spriteCache sm))"
  shows "length (spriteCache (SpriteManager_addToCache sm url sprite)) \<le> sm_maxCacheSize sm"
proof (cases "sm_maxCacheSize sm \<le> length (spriteCache sm)")
  case False
  then have "spriteCache (SpriteManager_addToCache sm url sprite)
      = map_set (spriteCache sm) url sprite"
    by (simp add: SpriteManager_addToCache_def Let_def)
  then show ?thesis using False length_map_set_le [of "spriteCache sm" url sprite] by simp
next
  case True
  with assms(2) have ne: "spriteCache sm \<noteq> []" by auto
  from addToCache_evicts_least [OF True ne assms(3), of url sprite] obtain k sp where
    i: "(k, sp) \<in> set (spriteCache sm)" and
    e: "spriteCache (SpriteManager_addToCache sm url sprite)
          = map_set (map_delete (spriteCache sm) k) url sprite" by blast
  from i have "k \<in> fst ` set (spriteCache sm)" by force
  from length_map_delete_less [OF this] assms(1)
    length_map_set_le [of "map_delete (spriteCache sm) k" url sprite]
  show ?thesis unfolding e by simp
qed

section \<open>The loading map at settlement, and preloading\<close>

text \<open>
  \<^verbatim>\<open>AssetLoader\<close>: \<^verbatim>\<open>onload\<close> and \<^verbatim>\<open>onerror\<close> delete the loading entry of their URL.
\<close>

lemma loading_settle_loadPromise: "loading (settle_loadPromise al i r) = loading al"
  by (simp add: settle_loadPromise_def Let_def)

lemma loading_manageCacheSize: "loading (AssetLoader_manageCacheSize al) = loading al"
  by (simp add: AssetLoader_manageCacheSize_def split: list.splits)

lemma img_onload_unregisters:
  "i < length (images al) \<Longrightarrow> map_get (loading (img_onload al i)) (src (images al ! i)) = None"
  by (simp add: img_onload_def Let_def loading_settle_loadPromise loading_manageCacheSize
        map_get_map_delete)

lemma img_onerror_unregisters:
  "i < length (images al) \<Longrightarrow> map_get (loading (img_onerror al i)) (src (images al ! i)) = None"
  by (simp add: img_onerror_def Let_def loading_settle_loadPromise map_get_map_delete)

text \<open>
  \<^verbatim>\<open>SpriteManager\<close>: a rejection of a pending load, by \<^verbatim>\<open>onerror\<close> or by the timer,
  leaves the loading map as it is.
\<close>

lemma image_onerror_keeps_entry:
  "loadingPromises (image_onerror sm i) = loadingPromises sm"
  by (simp add: image_onerror_def settle_load_def SpriteManager_resume_def
        SpriteManager_handleError_def Let_def)

lemma setTimeout_fires_keeps_entry:
  "loadingPromises (setTimeout_fires sm i) = loadingPromises sm"
  by (simp add: setTimeout_fires_def settle_load_def SpriteManager_resume_def
        SpriteManager_handleError_def Let_def)

text \<open>\<^verbatim>\<open>preloadSprites\<close>: one call per URL, and one rejection rejects the whole.\<close>

lemma map_loadSprite_length: "length (fst (map_loadSprite al urls)) = length urls"
  by (induction urls arbitrary: al) (simp_all add: case_prod_unfold Let_def)

lemma preloadSprites_rejects:
  "list_ex is_rejected (map (AssetLoader_future al) fs) \<Longrightarrow>
     preloadSprites_promise al fs urls = Rejected (PreloadFailed urls)"
  by (simp add: preloadSprites_promise_def)

section \<open>Validation\<close>

text \<open>
  Claim C7 (invalid-key rejection). For every argument that is the empty string,
  \<^verbatim>\<open>null\<close>, or a string whose lowercased suffix after the last \<^verbatim>\<open>'.'\<close> is not a
  supported format, \<^verbatim>\<open>loadSprite\<close> rejects with one of the two validation errors.
  \<^verbatim>\<open>AssetLoader\<close> returns its state as it was (no image is created, the cache and the
  loading map are untouched); \<^verbatim>\<open>SpriteManager\<close> only reports the error to its
  handlers: its cache, its loading map and its list of loads are unchanged.
\<close>

theorem invalid_key_rejected:
  "(invalid_key (supportedFormats al) v \<longrightarrow>
      (\<exists>e. is_InvalidKey e \<and> AssetLoader_loadSprite al v = (Thrown e, al)))
   \<and> (invalid_key SPRITE_SUPPORTED_FORMATS v \<longrightarrow>
        (\<exists>e. is_InvalidKey e
           \<and> fst (SpriteManager_loadSprite sm v options now) = Thrown e)
        \<and> spriteCache (snd (SpriteManager_loadSprite sm v options now)) = spriteCache sm
        \<and> loadingPromises (snd (SpriteManager_loadSprite sm v options now)) = loadingPromises sm
        \<and> loads (snd (SpriteManager_loadSprite sm v options now)) = loads sm)"
  by (cases v)
     (auto simp: AssetLoader_loadSprite_def AssetLoader_validateAssetUrl_def
        SpriteManager_loadSprite_def SpriteManager_validateUrl_def
        SpriteManager_handleError_def extension_of_suffix Let_def)

theorem invalid_key_rejected_witness:
  "invalid_key (supportedFormats (new_AssetLoader no_options)) (JStr ''x.unsupportedext'')
   \<and> AssetLoader_loadSprite (new_AssetLoader no_options) (JStr ''x.unsupportedext'')
       = (Thrown (UnsupportedFormat ''unsupportedext''), new_AssetLoader no_options)
   \<and> invalid_key SPRITE_SUPPORTED_FORMATS JNull
   \<and> fst (SpriteManager_loadSprite (new_SpriteManager None) JNull default_options 0) = Thrown InvalidUrl
   \<and> loads (snd (SpriteManager_loadSprite (new_SpriteManager None) JNull default_options 0)) = []"
proof -
  have h1: "invalid_key (supportedFormats (new_AssetLoader no_options)) (JStr ''x.unsupportedext'')"
    by (simp add: extension_of_suffix [symmetric] ext_unsupported new_AssetLoader_def
          no_options_def CONFIG_SUPPORTED_FORMATS_def)
  have h2: "invalid_key SPRITE_SUPPORTED_FORMATS JNull" by simp
  from invalid_key_rejected [of "new_AssetLoader no_options" "JStr ''x.unsupportedext''"] h1
  obtain e where e: "AssetLoader_loadSprite (new_AssetLoader no_options) (JStr ''x.unsupportedext'')
       = (Thrown e, new_AssetLoader no_options)" by blast
  have "e = UnsupportedFormat ''unsupportedext''"
    using e by (simp add: AssetLoader_loadSprite_def AssetLoader_validateAssetUrl_def
        ext_unsupported new_AssetLoader_def no_options_def CONFIG_SUPPORTED_FORMATS_def)
  with e have c1: "AssetLoader_loadSprite (new_AssetLoader no_options) (JStr ''x.unsupportedext'')
       = (Thrown (UnsupportedFormat ''unsupportedext''), new_AssetLoader no_options)" by simp
  from invalid_key_rejected [of _ JNull "new_SpriteManager None" default_options 0] h2
  have c2: "loads (snd (SpriteManager_loadSprite (new_SpriteManager None) JNull default_options 0))
      = loads (new_SpriteManager None)" by blast
  have c3: "fst (SpriteManager_loadSprite (new_SpriteManager None) JNull default_options 0) = Thrown InvalidUrl"
    by (simp add: SpriteManager_loadSprite_def SpriteManager_validateUrl_def)
  show ?thesis using h1 h2 c1 c2 c3 by (simp add: new_SpriteManager_def)
qed

text \<open>
  Claim C10 (dot-free keys). For a non-empty key without \<^verbatim>\<open>'.'\<close> the extension both
  validators compute is the whole key, lowercased, so each accepts the key exactly when
  the lowercased key is one of its supported formats. The witness runs the bare key
  \<^verbatim>\<open>'png'\<close> through a fresh \<^verbatim>\<open>AssetLoader\<close>: it is accepted and a fetch starts;
  \<^verbatim>\<open>'sprite'\<close> is rejected.
\<close>

theorem dot_free_key_extension:
  assumes "s \<noteq> []" and "CHR ''.'' \<notin> set s"
  shows "extension_of s = toLowerCase s
     \<and> (AssetLoader_validateAssetUrl al (JStr s) = None
          \<longleftrightarrow> toLowerCase s \<in> set (supportedFormats al))
     \<and> (SpriteManager_validateUrl (JStr s) = None
          \<longleftrightarrow> toLowerCase s \<in> set SPRITE_SUPPORTED_FORMATS)"
  using assms
  by (simp add: AssetLoader_validateAssetUrl_def SpriteManager_validateUrl_def
        extension_of_dot_free Let_def)

theorem dot_free_key_extension_witness:
  "''png'' \<noteq> [] \<and> CHR ''.'' \<notin> set ''png''
   \<and> AssetLoader_validateAssetUrl (new_AssetLoader no_options) (JStr ''png'') = None
   \<and> SpriteManager_validateUrl (JStr ''png'') = None
   \<and> AssetLoader_loadSprite (new_AssetLoader no_options) (JStr ''png'')
       = (Started 0,
          (new_AssetLoader no_options)
            \<lparr>images := [\<lparr>src = ''png'', loadPromise = Pending, racePromise = Pending\<rparr>],
             loading := [(''png'', 0)]\<rparr>)
   \<and> AssetLoader_validateAssetUrl (new_AssetLoader no_options) (JStr ''sprite'')
       = Some (UnsupportedFormat ''sprite'')"
proof -
  have h: "''png'' \<noteq> []" "CHR ''.'' \<notin> set ''png''" by simp_all
  have f: "supportedFormats (new_AssetLoader no_options) = [''png'', ''jpg'', ''jpeg'', ''webp'', ''svg'']"
    by (simp add: new_AssetLoader_def no_options_def CONFIG_SUPPORTED_FORMATS_def)
  from dot_free_key_extension [OF h, of "new_AssetLoader no_options"]
  have v: "AssetLoader_validateAssetUrl (new_AssetLoader no_options) (JStr ''png'') = None"
    and v2: "SpriteManager_validateUrl (JStr ''png'') = None"
    by (simp_all add: f lower_png SPRITE_SUPPORTED_FORMATS_def)
  have l: "AssetLoader_loadSprite (new_AssetLoader no_options) (JStr ''png'')
       = (Started 0,
          (new_AssetLoader no_options)
            \<lparr>images := [\<lparr>src = ''png'', loadPromise = Pending, racePromise = Pending\<rparr>],
             loading := [(''png'', 0)]\<rparr>)"
    unfolding AssetLoader_loadSprite_def v by (simp add: map_get_def new_AssetLoader_def Let_def)
  have r: "AssetLoader_validateAssetUrl (new_AssetLoader no_options) (JStr ''sprite'')
       = Some (UnsupportedFormat ''sprite'')"
    by (simp add: AssetLoader_validateAssetUrl_def extension_of_dot_free lower_sprite f)
  show ?thesis using h v v2 l r by simp
qed

section \<open>Accessors\<close>

text \<open>
  Claim C9 (accessor equivalence). \<^verbatim>\<open>AssetLoader.getSprite(url)\<close> hands back what
  \<^verbatim>\<open>AssetLoader.loadSprite(url)\<close> does, with the same effect on the loader, for every
  argument and every state.
\<close>

theorem getSprite_is_loadSprite:
  "AssetLoader_getSprite al url = AssetLoader_loadSprite al url"
  by (simp add: AssetLoader_getSprite_def)

section \<open>De-duplication of loads\<close>



section \<open>The cache option\<close>

text \<open>
  Claim C8 (cache bypass). A \<^verbatim>\<open>SpriteManager.loadSprite\<close> call on a valid URL with
  \<^verbatim>\<open>options.cache === false\<close> never answers from the cache: it joins the registered load
  of the URL if there is one and starts a load otherwise, also when the URL is cached.
  The call leaves the cache as it is, and when the load it started succeeds the sprite
  is handed to the caller, the loading entry is deleted and the cache is still as it was
  before the call. The last conjunct is the same fact for a load in any state: the
  success of a load started with \<^verbatim>\<open>cache: false\<close> does not change the cache.
\<close>

theorem cache_bypass:
  assumes "SpriteManager_validateUrl (JStr k) = None"
      and "option_cache options = Some False"
  shows "(case SpriteManager_loadSprite sm (JStr k) options now of (f, sm1) \<Rightarrow>
            spriteCache sm1 = spriteCache sm
            \<and> (case map_get (loadingPromises sm) k of
                 Some p \<Rightarrow> f = Joined p \<and> sm1 = sm
               | None \<Rightarrow>
                   f = Started (length (loads sm))
                   \<and> SpriteManager_fetches sm1 k = SpriteManager_fetches sm k + 1
                   \<and> SpriteManager_future (image_onload sm1 (length (loads sm)) t) f
                       = Fulfilled \<lparr>sprite_image = length (loads sm), sprite_id = k, lastUsed = t\<rparr>
                   \<and> map_get (loadingPromises (image_onload sm1 (length (loads sm)) t)) k = None
                   \<and> spriteCache (image_onload sm1 (length (loads sm)) t) = spriteCache sm))
         \<and> (i < length (loads s) \<and> option_cache (load_options (loads s ! i)) = Some False
              \<longrightarrow> spriteCache (image_onload s i t) = spriteCache s)"
proof (intro conjI impI)
  show "case SpriteManager_loadSprite sm (JStr k) options now of (f, sm1) \<Rightarrow>
            spriteCache sm1 = spriteCache sm
            \<and> (case map_get (loadingPromises sm) k of
                 Some p \<Rightarrow> f = Joined p \<and> sm1 = sm
               | None \<Rightarrow>
                   f = Started (length (loads sm))
                   \<and> SpriteManager_fetches sm1 k = SpriteManager_fetches sm k + 1
                   \<and> SpriteManager_future (image_onload sm1 (length (loads sm)) t) f
                       = Fulfilled \<lparr>sprite_image = length (loads sm), sprite_id = k, lastUsed = t\<rparr>
                   \<and> map_get (loadingPromises (image_onload sm1 (length (loads sm)) t)) k = None
                   \<and> spriteCache (image_onload sm1 (length (loads sm)) t) = spriteCache sm)"
  proof (cases "map_get (loadingPromises sm) k")
    case (Some p)
    then show ?thesis
      by (simp add: SpriteManager_loadSprite_join [OF assms(1) disjI1 [OF assms(2)]])
  next
    case None
    let ?l = "\<lparr>load_url = k, load_options = options, load_promise = Pending, timeoutId = True\<rparr>"
    let ?sm1 = "sm\<lparr>loads := loads sm @ [?l],
                   loadingPromises := map_set (loadingPromises sm) k (length (loads sm))\<rparr>"
    have s: "SpriteManager_loadSprite sm (JStr k) options now = (Started (length (loads sm)), ?sm1)"
      by (rule SpriteManager_loadSprite_start [OF assms(1) disjI1 [OF assms(2)] None])
    have n: "length (loads sm) < length (loads ?sm1)" by simp
    have l: "loads ?sm1 ! length (loads sm) = ?l" by simp
    have b: "spriteCache (image_onload ?sm1 (length (loads sm)) t) = spriteCache ?sm1"
      by (rule image_onload_bypass [OF n]) (simp add: assms(2))
    have p: "load_promise (loads ?sm1 ! length (loads sm)) = Pending" by simp
    note st = image_onload_started [OF n p, of t]
    have f: "SpriteManager_fetches ?sm1 k = SpriteManager_fetches sm k + 1"
      by (simp add: SpriteManager_fetches_append)
    show ?thesis
      unfolding s prod.case None option.case using b st f by simp
  qed
next
  assume "i < length (loads s) \<and> option_cache (load_options (loads s ! i)) = Some False"
  then show "spriteCache (image_onload s i t) = spriteCache s"
    by (simp add: image_onload_bypass)
qed

theorem cache_bypass_witness:
  "SpriteManager_validateUrl (JStr ''a.png'') = None
   \<and> option_cache bypass_options = Some False
   \<and> map_has (spriteCache sm_cached) ''a.png''
   \<and> fst (SpriteManager_loadSprite sm_cached (JStr ''a.png'') bypass_options 20) = Started 1
   \<and> spriteCache (snd (SpriteManager_loadSprite sm_cached (JStr ''a.png'') bypass_options 20))
       = spriteCache sm_cached
   \<and> spriteCache
        (image_onload (snd (SpriteManager_loadSprite sm_cached (JStr ''a.png'') bypass_options 20)) 1 30)
       = spriteCache sm_cached"
proof -
  have h: "option_cache bypass_options = Some False"
    by (simp add: bypass_options_def default_options_def)
  have c: "map_has (spriteCache sm_cached) ''a.png''"
    by (simp add: sm_cached_eq map_has_def map_get_def)
  have n: "map_get (loadingPromises sm_cached) ''a.png'' = None" "length (loads sm_cached) = 1"
    by (simp_all add: sm_cached_eq map_get_def)
  from cache_bypass [OF sm_valid_a_png h, where sm = sm_cached and now = 20 and t = 30]
  show ?thesis using sm_valid_a_png h c
    by (simp add: n case_prod_unfold)
qed

section \<open>Timeouts\<close>

text \<open>
  What both loaders do when a timer fires first. In \<^verbatim>\<open>AssetLoader\<close> the promise of the
  call that started the load is rejected with the timeout error and stays so after any
  later calls and callbacks. In \<^verbatim>\<open>SpriteManager\<close> the promise of the starting call and
  of every joining call is rejected with the timeout error and stays so, and an
  \<^verbatim>\<open>onload\<close> of that load arriving at any later moment changes neither the cache nor
  the loading map: it resolves a promise that is already rejected.
\<close>

lemma timeout_rejection_stays:
  "(i < length (images al) \<and> racePromise (images al ! i) = Pending \<longrightarrow>
      AssetLoader_future (al_run (createTimeout_fires al i) evs) (Started i)
        = Rejected (LoadTimeout None))
   \<and> (j < length (loads sm) \<and> load_promise (loads sm ! j) = Pending \<and> timeoutId (loads sm ! j) \<longrightarrow>
        SpriteManager_future (sm_run (setTimeout_fires sm j) smevs) (Started j)
          = Rejected (LoadTimeout (Some (load_url (loads sm ! j))))
      \<and> SpriteManager_future (sm_run (setTimeout_fires sm j) smevs) (Joined j)
          = Rejected (LoadTimeout (Some (load_url (loads sm ! j))))
      \<and> spriteCache (image_onload (sm_run (setTimeout_fires sm j) smevs) j now)
          = spriteCache (sm_run (setTimeout_fires sm j) smevs)
      \<and> loadingPromises (image_onload (sm_run (setTimeout_fires sm j) smevs) j now)
          = loadingPromises (sm_run (setTimeout_fires sm j) smevs))"
proof (intro conjI impI)
  assume h: "i < length (images al) \<and> racePromise (images al ! i) = Pending"
  then have "i < length (images (createTimeout_fires al i))
     \<and> racePromise (images (createTimeout_fires al i) ! i) = Rejected (LoadTimeout None)"
    by (simp add: createTimeout_fires_pending)
  then have "i < length (images (al_run (createTimeout_fires al i) evs))
     \<and> racePromise (images (al_run (createTimeout_fires al i) evs) ! i) = Rejected (LoadTimeout None)"
    by (simp add: race_rejected_run)
  then show "AssetLoader_future (al_run (createTimeout_fires al i) evs) (Started i)
        = Rejected (LoadTimeout None)" by simp
next
  assume h: "j < length (loads sm) \<and> load_promise (loads sm ! j) = Pending \<and> timeoutId (loads sm ! j)"
  then have t: "j < length (loads (setTimeout_fires sm j))
     \<and> load_promise (loads (setTimeout_fires sm j) ! j)
         = Rejected (LoadTimeout (Some (load_url (loads sm ! j))))
     \<and> spriteCache (setTimeout_fires sm j) = spriteCache sm
     \<and> loadingPromises (setTimeout_fires sm j) = loadingPromises sm"
    by (simp add: setTimeout_fires_pending)
  then have r: "j < length (loads (sm_run (setTimeout_fires sm j) smevs))
     \<and> load_promise (loads (sm_run (setTimeout_fires sm j) smevs) ! j)
         = Rejected (LoadTimeout (Some (load_url (loads sm ! j))))"
    by (simp add: promise_rejected_run)
  show "SpriteManager_future (sm_run (setTimeout_fires sm j) smevs) (Started j)
          = Rejected (LoadTimeout (Some (load_url (loads sm ! j))))" using r by simp
  show "SpriteManager_future (sm_run (setTimeout_fires sm j) smevs) (Joined j)
          = Rejected (LoadTimeout (Some (load_url (loads sm ! j))))" using r by simp
  show "spriteCache (image_onload (sm_run (setTimeout_fires sm j) smevs) j now)
          = spriteCache (sm_run (setTimeout_fires sm j) smevs)"
    using r image_onload_settled by blast
  show "loadingPromises (image_onload (sm_run (setTimeout_fires sm j) smevs) j now)
          = loadingPromises (sm_run (setTimeout_fires sm j) smevs)"
    using r image_onload_settled by blast
qed

text \<open>
  Claim C1 at its failing input. \<^verbatim>\<open>AssetLoader.loadSprite\<close> races \<^verbatim>\<open>loadPromise\<close>
  against the timeout, but writes the cache and the loading map inside \<^verbatim>\<open>img.onload\<close>
  and registers \<^verbatim>\<open>loadPromise\<close>, not the race, in the loading map. A fresh loader
  starts the load of \<^verbatim>\<open>'a.png'\<close> and the timer fires first:
  \<^item> the promise of the starting call is rejected with the timeout error, the cache is
    empty and the entry of \<^verbatim>\<open>'a.png'\<close> is still in the loading map;
  \<^item> a second call for \<^verbatim>\<open>'a.png'\<close> joins the registered promise, which the timer has
    not rejected: that caller's promise is still pending;
  \<^item> then the image loads, and its \<^verbatim>\<open>onload\<close> handler puts \<^verbatim>\<open>'a.png'\<close> into the cache
    and deletes the entry of the loading map.
\<close>

theorem late_onload_populates_cache:
  "AssetLoader_loadSprite (new_AssetLoader no_options) (JStr ''a.png'') = (Started 0, al_started)
   \<and> AssetLoader_future al_started (Started 0) = Pending
   \<and> AssetLoader_future (createTimeout_fires al_started 0) (Started 0)
       = Rejected (LoadTimeout None)
   \<and> cache (createTimeout_fires al_started 0) = []
   \<and> loading (createTimeout_fires al_started 0) = [(''a.png'', 0)]
   \<and> AssetLoader_loadSprite (createTimeout_fires al_started 0) (JStr ''a.png'')
       = (Joined 0, createTimeout_fires al_started 0)
   \<and> AssetLoader_future (createTimeout_fires al_started 0) (Joined 0) = Pending
   \<and> cache (img_onload (createTimeout_fires al_started 0) 0) = [(''a.png'', 0)]
   \<and> loading (img_onload (createTimeout_fires al_started 0) 0) = []"
proof -
  have a: "map_get (cache (new_AssetLoader no_options)) ''a.png'' = None"
    "map_get (loading (new_AssetLoader no_options)) ''a.png'' = None"
    by (simp_all add: new_AssetLoader_no_options map_get_def)
  have s1: "AssetLoader_loadSprite (new_AssetLoader no_options) (JStr ''a.png'') = (Started 0, al_started)"
    unfolding al_started_def AssetLoader_loadSprite_start [OF valid_a_png a]
    by (simp add: new_AssetLoader_no_options)
  have e1: "createTimeout_fires al_started 0 = al_timed_out" by (simp add: al_timed_out_def)
  have e2: "img_onload al_timed_out 0 = al_late_onload" by (simp add: al_late_onload_def)
  have p: "AssetLoader_future al_started (Started 0) = Pending" by (simp add: al_started_eq)
  have r: "AssetLoader_future al_timed_out (Started 0) = Rejected (LoadTimeout None)"
    "cache al_timed_out = []" "loading al_timed_out = [(''a.png'', 0)]"
    "AssetLoader_future al_timed_out (Joined 0) = Pending"
    by (simp_all add: al_timed_out_eq)
  have j: "AssetLoader_loadSprite al_timed_out (JStr ''a.png'') = (Joined 0, al_timed_out)"
    by (rule AssetLoader_loadSprite_join)
       (simp_all add: al_timed_out_eq AssetLoader_validateAssetUrl_def ext_a_png map_get_def)
  have l: "cache al_late_onload = [(''a.png'', 0)]" "loading al_late_onload = []"
    by (simp_all add: al_late_onload_eq)
  show ?thesis unfolding e1 e2 using s1 p r j l by simp
qed

section \<open>Cache hits\<close>

text \<open>
  Claim C6 as stated fails on \<^verbatim>\<open>SpriteManager\<close>: the cache is consulted only when
  \<^verbatim>\<open>options.cache !== false\<close>. After \<^verbatim>\<open>'a.png'\<close> has been loaded and cached, a call
  for it with \<^verbatim>\<open>cache: false\<close> starts a second load of the same URL; the cached
  record keeps its old \<^verbatim>\<open>lastUsed\<close>.
\<close>

theorem bypass_call_fetches_cached_key:
  "SpriteManager_validateUrl (JStr ''a.png'') = None
   \<and> map_get (spriteCache sm_cached) ''a.png''
       = Some \<lparr>sprite_image = 0, sprite_id = ''a.png'', lastUsed = 10\<rparr>
   \<and> SpriteManager_fetches sm_cached ''a.png'' = 1
   \<and> fst (SpriteManager_loadSprite sm_cached (JStr ''a.png'') bypass_options 20) = Started 1
   \<and> SpriteManager_fetches
         (snd (SpriteManager_loadSprite sm_cached (JStr ''a.png'') bypass_options 20)) ''a.png'' = 2
   \<and> map_get
         (spriteCache (snd (SpriteManager_loadSprite sm_cached (JStr ''a.png'') bypass_options 20)))
         ''a.png''
       = Some \<lparr>sprite_image = 0, sprite_id = ''a.png'', lastUsed = 10\<rparr>"
  by (simp add: sm_valid_a_png sm_cached_eq SpriteManager_eval SpriteManager_fetches_def
        bypass_options_def default_options_def)

text \<open>
  Claim C6, as amended (cache-hit fast path). For a valid key that is in the cache:
  \<^item> \<^verbatim>\<open>AssetLoader.loadSprite\<close> returns the image stored for the key and leaves the
    loader as it is, so no image is created;
  \<^item> \<^verbatim>\<open>SpriteManager.loadSprite\<close>, called at time \<open>now\<close> with
    \<^verbatim>\<open>options.cache !== false\<close>, returns the stored sprite (same image, same id) with
    \<^verbatim>\<open>lastUsed = now\<close>, stores that under the key at the same position of the cache,
    leaves every other cache entry, the loading map and the list of loads as they were,
    so no image is created.
\<close>

theorem cache_hit_fast_path:
  "(AssetLoader_validateAssetUrl al (JStr k) = None \<and> map_get (cache al) k = Some img \<longrightarrow>
      AssetLoader_loadSprite al (JStr k) = (Returned img, al))
   \<and> (SpriteManager_validateUrl (JStr k) = None \<and> map_get (spriteCache sm) k = Some sprite
        \<and> option_cache options \<noteq> Some False \<longrightarrow>
      (case SpriteManager_loadSprite sm (JStr k) options now of (f, sm1) \<Rightarrow>
         f = Returned \<lparr>sprite_image = sprite_image sprite, sprite_id = sprite_id sprite,
                        lastUsed = now\<rparr>
         \<and> map_get (spriteCache sm1) k
             = Some \<lparr>sprite_image = sprite_image sprite, sprite_id = sprite_id sprite,
                      lastUsed = now\<rparr>
         \<and> map_keys (spriteCache sm1) = map_keys (spriteCache sm)
         \<and> (\<forall>k'. k' \<noteq> k \<longrightarrow> map_get (spriteCache sm1) k' = map_get (spriteCache sm) k')
         \<and> loads sm1 = loads sm
         \<and> loadingPromises sm1 = loadingPromises sm))"
proof (intro conjI impI)
  assume "AssetLoader_validateAssetUrl al (JStr k) = None \<and> map_get (cache al) k = Some img"
  then show "AssetLoader_loadSprite al (JStr k) = (Returned img, al)"
    by (simp add: AssetLoader_loadSprite_hit)
next
  assume h: "SpriteManager_validateUrl (JStr k) = None \<and> map_get (spriteCache sm) k = Some sprite
        \<and> option_cache options \<noteq> Some False"
  have e: "sprite\<lparr>lastUsed := now\<rparr>
      = \<lparr>sprite_image = sprite_image sprite, sprite_id = sprite_id sprite, lastUsed = now\<rparr>"
    by (cases sprite) simp
  from h have s: "SpriteManager_loadSprite sm (JStr k) options now =
           (Returned (sprite\<lparr>lastUsed := now\<rparr>),
            sm\<lparr>spriteCache := map_set (spriteCache sm) k (sprite\<lparr>lastUsed := now\<rparr>)\<rparr>)"
    by (simp add: SpriteManager_loadSprite_hit)
  show "case SpriteManager_loadSprite sm (JStr k) options now of (f, sm1) \<Rightarrow>
         f = Returned \<lparr>sprite_image = sprite_image sprite, sprite_id = sprite_id sprite,
                        lastUsed = now\<rparr>
         \<and> map_get (spriteCache sm1) k
             = Some \<lparr>sprite_image = sprite_image sprite, sprite_id = sprite_id sprite,
                      lastUsed = now\<rparr>
         \<and> map_keys (spriteCache sm1) = map_keys (spriteCache sm)
         \<and> (\<forall>k'. k' \<noteq> k \<longrightarrow> map_get (spriteCache sm1) k' = map_get (spriteCache sm) k')
         \<and> loads sm1 = loads sm
         \<and> loadingPromises sm1 = loadingPromises sm"
    unfolding s prod.case e using h
    by (simp add: map_get_map_set map_keys_map_set_present)
qed

theorem cache_hit_fast_path_witness:
  "AssetLoader_validateAssetUrl al_ab_cached (JStr ''a.png'') = None
   \<and> map_get (cache al_ab_cached) ''a.png'' = Some 0
   \<and> AssetLoader_loadSprite al_ab_cached (JStr ''a.png'') = (Returned 0, al_ab_cached)
   \<and> SpriteManager_validateUrl (JStr ''a.png'') = None
   \<and> map_get (spriteCache sm_cached) ''a.png''
       = Some \<lparr>sprite_image = 0, sprite_id = ''a.png'', lastUsed = 10\<rparr>
   \<and> option_cache default_options \<noteq> Some False
   \<and> fst (SpriteManager_loadSprite sm_cached (JStr ''a.png'') default_options 20)
       = Returned \<lparr>sprite_image = 0, sprite_id = ''a.png'', lastUsed = 20\<rparr>
   \<and> loads (snd (SpriteManager_loadSprite sm_cached (JStr ''a.png'') default_options 20))
       = loads sm_cached
   \<and> map_get (spriteCache (snd (SpriteManager_loadSprite sm_cached (JStr ''a.png'') default_options 20)))
         ''a.png''
       = Some \<lparr>sprite_image = 0, sprite_id = ''a.png'', lastUsed = 20\<rparr>"
proof -
  have h1: "AssetLoader_validateAssetUrl al_ab_cached (JStr ''a.png'') = None
      \<and> map_get (cache al_ab_cached) ''a.png'' = Some 0"
    by (simp add: al_ab_cached_eq AssetLoader_validateAssetUrl_def ext_a_png map_get_def)
  have h2: "SpriteManager_validateUrl (JStr ''a.png'') = None
      \<and> map_get (spriteCache sm_cached) ''a.png''
          = Some \<lparr>sprite_image = 0, sprite_id = ''a.png'', lastUsed = 10\<rparr>
      \<and> option_cache default_options \<noteq> Some False"
    by (simp add: sm_valid_a_png sm_cached_eq map_get_def default_options_def)
  from cache_hit_fast_path
         [where al = al_ab_cached and k = "''a.png''" and img = 0 and sm = sm_cached
            and sprite = "\<lparr>sprite_image = 0, sprite_id = ''a.png'', lastUsed = 10\<rparr>"
            and options = default_options and now = 20]
  show ?thesis using h1 h2 by (simp add: case_prod_unfold)
qed

section \<open>The loading map after a failure\<close>

text \<open>
  Claim C2 at its failing input. \<^verbatim>\<open>SpriteManager.loadSprite\<close> deletes the loading entry
  on the line after \<^verbatim>\<open>await loadPromise\<close>; a rejection skips that line. A fresh
  manager starts the load of \<^verbatim>\<open>'a.png'\<close> and the image fails: the caller's promise is
  rejected, the entry of \<^verbatim>\<open>'a.png'\<close> is still in the loading map, and the next call for
  \<^verbatim>\<open>'a.png'\<close> returns that rejected promise and creates no image. The same holds when
  the timer fires instead. In \<^verbatim>\<open>AssetLoader\<close> the timer leaves the entry registered too
  (its \<^verbatim>\<open>onload\<close> and \<^verbatim>\<open>onerror\<close> handlers delete it).
\<close>

theorem failed_load_stays_registered:
  "SpriteManager_loadSprite (new_SpriteManager None) (JStr ''a.png'') default_options 0
     = (Started 0, sm_started)
   \<and> SpriteManager_future (image_onerror sm_started 0) (Started 0) = Rejected (LoadFailed ''a.png'')
   \<and> map_get (loadingPromises (image_onerror sm_started 0)) ''a.png'' = Some 0
   \<and> SpriteManager_loadSprite (image_onerror sm_started 0) (JStr ''a.png'') default_options 1
       = (Joined 0, image_onerror sm_started 0)
   \<and> SpriteManager_future (image_onerror sm_started 0) (Joined 0) = Rejected (LoadFailed ''a.png'')
   \<and> SpriteManager_fetches (image_onerror sm_started 0) ''a.png'' = 1
   \<and> map_get (loadingPromises (setTimeout_fires sm_started 0)) ''a.png'' = Some 0
   \<and> SpriteManager_loadSprite (setTimeout_fires sm_started 0) (JStr ''a.png'') default_options 1
       = (Joined 0, setTimeout_fires sm_started 0)
   \<and> map_get (loading (createTimeout_fires al_started 0)) ''a.png'' = Some 0"
proof -
  have b: "map_get (spriteCache (new_SpriteManager None)) ''a.png'' = None"
    "map_get (loadingPromises (new_SpriteManager None)) ''a.png'' = None"
    by (simp_all add: new_SpriteManager_def map_get_def)
  have s: "SpriteManager_loadSprite (new_SpriteManager None) (JStr ''a.png'') default_options 0
       = (Started 0, sm_started)"
    unfolding sm_started_def SpriteManager_loadSprite_start [OF sm_valid_a_png disjI2 [OF b(1)] b(2)]
    by (simp add: new_SpriteManager_def)
  have e: "image_onerror sm_started 0 = sm_failed" "setTimeout_fires sm_started 0 = sm_timed_out"
    "createTimeout_fires al_started 0 = al_timed_out"
    by (simp_all add: sm_failed_def sm_timed_out_def al_timed_out_def)
  have j1: "SpriteManager_loadSprite sm_failed (JStr ''a.png'') default_options 1 = (Joined 0, sm_failed)"
    by (rule SpriteManager_loadSprite_join [OF sm_valid_a_png])
       (simp_all add: sm_failed_eq map_get_def)
  have j2: "SpriteManager_loadSprite sm_timed_out (JStr ''a.png'') default_options 1
      = (Joined 0, sm_timed_out)"
    by (rule SpriteManager_loadSprite_join [OF sm_valid_a_png])
       (simp_all add: sm_timed_out_eq map_get_def)
  have r: "SpriteManager_future sm_failed (Started 0) = Rejected (LoadFailed ''a.png'')
      \<and> map_get (loadingPromises sm_failed) ''a.png'' = Some 0
      \<and> SpriteManager_future sm_failed (Joined 0) = Rejected (LoadFailed ''a.png'')
      \<and> SpriteManager_fetches sm_failed ''a.png'' = 1
      \<and> map_get (loadingPromises sm_timed_out) ''a.png'' = Some 0
      \<and> map_get (loading al_timed_out) ''a.png'' = Some 0"
    by (simp add: sm_failed_eq sm_timed_out_eq al_timed_out_eq map_get_def SpriteManager_fetches_def)
  show ?thesis unfolding e using s j1 j2 r by simp
qed

section \<open>Eviction\<close>

text \<open>
  Claim C3 at its failing input. \<^verbatim>\<open>AssetLoader._manageCacheSize\<close> deletes the first key
  of the cache in insertion order, and a cache hit does not move a key. With
  \<^verbatim>\<open>maxCacheSize: 2\<close>: \<^verbatim>\<open>'a.png'\<close> and \<^verbatim>\<open>'b.png'\<close> are loaded, \<^verbatim>\<open>'a.png'\<close> is
  requested again (a cache hit), then \<^verbatim>\<open>'c.png'\<close> is loaded. The key evicted is
  \<^verbatim>\<open>'a.png'\<close>, the most recently used of the two, and the cache is left with
  \<^verbatim>\<open>'b.png'\<close> and \<^verbatim>\<open>'c.png'\<close>.
\<close>

theorem first_inserted_evicted:
  "maxCacheSize al_ab_cached = 2
   \<and> map_keys (cache al_ab_cached) = [''a.png'', ''b.png'']
   \<and> AssetLoader_loadSprite al_ab_cached (JStr ''a.png'') = (Returned 0, al_ab_cached)
   \<and> fst (AssetLoader_loadSprite al_ab_cached (JStr ''c.png'')) = Started 2
   \<and> map_keys (cache (img_onload (snd (AssetLoader_loadSprite al_ab_cached (JStr ''c.png''))) 2))
       = [''b.png'', ''c.png'']"
proof -
  have e: "img_onload (snd (AssetLoader_loadSprite al_ab_cached (JStr ''c.png''))) 2 = al_c_loaded"
    by (simp add: al_c_loaded_def al_a_used_def al_a_used_hit)
  have f: "fst (AssetLoader_loadSprite al_ab_cached (JStr ''c.png'')) = Started 2"
    by (simp add: al_ab_cached_eq AssetLoader_eval)
  show ?thesis unfolding e using f al_a_used_hit
    by (simp add: al_c_loaded_eq al_ab_cached_eq map_keys_def)
qed

section \<open>Preloading\<close>

text \<open>
  Claim C4 at its failing input. \<^verbatim>\<open>AssetLoader.preloadSprites\<close> on the three URLs of
  the test \<^verbatim>\<open>'should handle partial preload failures gracefully'\<close> issues a load for
  each URL; the first and third image load and the second fails. The promise
  \<^verbatim>\<open>preloadSprites\<close> returned is then rejected with
  \<^verbatim>\<open>AssetLoadError('Failed to preload sprites', urls)\<close>; it is not fulfilled with a
  partition into succeeded and failed keys.
\<close>

theorem preload_rejects_as_a_whole:
  "AssetLoader_preloadSprites (new_AssetLoader no_options) preload_urls
     = ([Started 0, Started 1, Started 2], al_preloading)
   \<and> map (AssetLoader_future (img_onload (img_onerror (img_onload al_preloading 0) 1) 2))
         [Started 0, Started 1, Started 2]
       = [Fulfilled 0, Rejected (LoadFailed ''invalid/sprite.png''), Fulfilled 2]
   \<and> preloadSprites_promise (img_onload (img_onerror (img_onload al_preloading 0) 1) 2)
         [Started 0, Started 1, Started 2] preload_urls
       = Rejected (PreloadFailed preload_urls)"
proof -
  have e: "img_onload (img_onerror (img_onload al_preloading 0) 1) 2 = al_preload_settled"
    by (simp add: al_preload_settled_def)
  have s: "AssetLoader_preloadSprites (new_AssetLoader no_options) preload_urls
     = ([Started 0, Started 1, Started 2], al_preloading)"
    by (simp add: al_preloading_def preload_started)
  show ?thesis unfolding e using s
    by (simp add: al_preload_settled_eq preloadSprites_promise_def)
qed

end
